theory Spec2Isabelle
  imports Complex_Main "HOL-Library.Product_Lexorder"
begin

section \<open>Property statistics of matminer (featurizers/stats.py)\<close>

text \<open>
  A shallow embedding of the class \<open>PropertyStats\<close>. Every method of the class is a
  function of this theory with the method's name; an exception is a value \<open>Inl e\<close> of the
  result type.

  Numbers. A Python float or a numpy float64 is a value of \<open>fl\<close>: a finite real, one of
  the two infinities, or NaN. The special values follow IEEE 754 (NaN is unequal to
  everything and unordered, \<open>inf - inf\<close>, \<open>0 * inf\<close> and \<open>0 / 0\<close> are NaN, \<open>x / 0\<close>
  is an infinity in numpy). Finite arithmetic is exact: rounding, overflow to infinity
  and the sign of zero are not part of this model, so a theorem below speaks about the
  formula the code evaluates, not about its last bits.
\<close>

subsection \<open>Floats\<close>

datatype fl = Fin real | PInf | NInf | NaN

fun fl_neg :: "fl \<Rightarrow> fl" where
  "fl_neg (Fin r) = Fin (- r)"
| "fl_neg PInf = NInf"
| "fl_neg NInf = PInf"
| "fl_neg NaN = NaN"

fun fl_add :: "fl \<Rightarrow> fl \<Rightarrow> fl" where
  "fl_add NaN _ = NaN"
| "fl_add _ NaN = NaN"
| "fl_add (Fin a) (Fin b) = Fin (a + b)"
| "fl_add PInf NInf = NaN"
| "fl_add NInf PInf = NaN"
| "fl_add PInf _ = PInf"
| "fl_add _ PInf = PInf"
| "fl_add NInf _ = NInf"
| "fl_add _ NInf = NInf"

definition fl_sub :: "fl \<Rightarrow> fl \<Rightarrow> fl" where
  "fl_sub a b = fl_add a (fl_neg b)"

fun is_zero :: "fl \<Rightarrow> bool" where
  "is_zero (Fin r) = (r = 0)"
| "is_zero _ = False"

fun is_negative :: "fl \<Rightarrow> bool" where
  "is_negative (Fin r) = (r < 0)"
| "is_negative NInf = True"
| "is_negative _ = False"

fun fl_mul :: "fl \<Rightarrow> fl \<Rightarrow> fl" where
  "fl_mul NaN _ = NaN"
| "fl_mul _ NaN = NaN"
| "fl_mul (Fin a) (Fin b) = Fin (a * b)"
| "fl_mul a b =
     (if is_zero a \<or> is_zero b then NaN
      else if is_negative a = is_negative b then PInf else NInf)"

text \<open>
  Division of numpy scalars and arrays (\<open>true_divide\<close>): a zero divisor gives an
  infinity or NaN, with a warning and no exception.
\<close>

fun fl_div :: "fl \<Rightarrow> fl \<Rightarrow> fl" where
  "fl_div NaN _ = NaN"
| "fl_div _ NaN = NaN"
| "fl_div (Fin a) (Fin b) =
     (if b = 0 then (if a = 0 then NaN else if 0 < a then PInf else NInf)
      else Fin (a / b))"
| "fl_div (Fin a) _ = Fin 0"
| "fl_div PInf (Fin b) = (if b < 0 then NInf else PInf)"
| "fl_div NInf (Fin b) = (if b < 0 then PInf else NInf)"
| "fl_div _ _ = NaN"

fun fl_abs :: "fl \<Rightarrow> fl" where
  "fl_abs (Fin r) = Fin \<bar>r\<bar>"
| "fl_abs NaN = NaN"
| "fl_abs _ = PInf"

fun fl_sqrt :: "fl \<Rightarrow> fl" where
  "fl_sqrt (Fin r) = (if r < 0 then NaN else Fin (sqrt r))"
| "fl_sqrt PInf = PInf"
| "fl_sqrt _ = NaN"

fun fl_exp :: "fl \<Rightarrow> fl" where
  "fl_exp (Fin r) = Fin (exp r)"
| "fl_exp PInf = PInf"
| "fl_exp NInf = Fin 0"
| "fl_exp NaN = NaN"

fun fl_log :: "fl \<Rightarrow> fl" where
  "fl_log (Fin r) = (if r < 0 then NaN else if r = 0 then NInf else Fin (ln r))"
| "fl_log PInf = PInf"
| "fl_log _ = NaN"

text \<open>The comparisons \<open><\<close> and \<open>==\<close>: both are false as soon as one side is NaN.\<close>

fun fl_lt :: "fl \<Rightarrow> fl \<Rightarrow> bool" where
  "fl_lt NaN _ = False"
| "fl_lt _ NaN = False"
| "fl_lt (Fin a) (Fin b) = (a < b)"
| "fl_lt NInf NInf = False"
| "fl_lt NInf _ = True"
| "fl_lt _ NInf = False"
| "fl_lt PInf _ = False"
| "fl_lt _ PInf = True"

definition fl_eq :: "fl \<Rightarrow> fl \<Rightarrow> bool" where
  "fl_eq a b = (a \<noteq> NaN \<and> a = b)"

definition fl_le :: "fl \<Rightarrow> fl \<Rightarrow> bool" where
  "fl_le a b = (fl_lt a b \<or> fl_eq a b)"

fun is_nan :: "fl \<Rightarrow> bool" where
  "is_nan NaN = True"
| "is_nan _ = False"

fun is_finite :: "fl \<Rightarrow> bool" where
  "is_finite (Fin _) = True"
| "is_finite _ = False"

subsection \<open>Python values and exceptions\<close>

datatype pyerr =
  AttributeError | TypeError | ValueError | ZeroDivisionError | IndexError | LinAlgError

text \<open>
  The sample \<open>data_lst\<close> and the weights are one-dimensional sequences of floats: a
  Python list, or a numpy array (whose elements are float64 scalars).
\<close>

datatype seq = PyList "fl list" | NdArray "fl list"

fun elems :: "seq \<Rightarrow> fl list" where
  "elems (PyList xs) = xs"
| "elems (NdArray xs) = xs"

text \<open>
  \<open>x in data_lst\<close> where \<open>x\<close> is a newly created float: a list compares each element
  with \<open>is\<close> and then with \<open>==\<close>, an array with \<open>==\<close> only. No element is the new
  object, so the test is \<open>==\<close> in both cases.
\<close>

definition py_in_fresh :: "fl \<Rightarrow> seq \<Rightarrow> bool" where
  "py_in_fresh x s = list_ex (\<lambda>e. fl_eq e x) (elems s)"

text \<open>
  The builtins \<open>min\<close> and \<open>max\<close>: the first element is the candidate, and a later
  element replaces it when it compares smaller (greater). An empty sequence raises
  ValueError.
\<close>

fun py_min :: "fl list \<Rightarrow> pyerr + fl" where
  "py_min [] = Inl ValueError"
| "py_min (x # xs) = Inr (foldl (\<lambda>m y. if fl_lt y m then y else m) x xs)"

fun py_max :: "fl list \<Rightarrow> pyerr + fl" where
  "py_max [] = Inl ValueError"
| "py_max (x # xs) = Inr (foldl (\<lambda>m y. if fl_lt m y then y else m) x xs)"

text \<open>
  The builtin \<open>sum\<close> starts from 0 and adds from left to right. Python's \<open>a / b\<close> on
  its own floats raises ZeroDivisionError for a zero divisor.
\<close>

definition py_sum :: "fl list \<Rightarrow> fl" where
  "py_sum xs = foldl fl_add (Fin 0) xs"

definition py_truediv :: "fl \<Rightarrow> fl \<Rightarrow> pyerr + fl" where
  "py_truediv a b = (if is_zero b then Inl ZeroDivisionError else Inr (fl_div a b))"

text \<open>A list comprehension whose element expression may raise: the first error ends it.\<close>

fun py_comprehension :: "('a \<Rightarrow> pyerr + 'b) \<Rightarrow> 'a list \<Rightarrow> pyerr + 'b list" where
  "py_comprehension f [] = Inr []"
| "py_comprehension f (x # xs) =
     (case f x of
        Inl e \<Rightarrow> Inl e
      | Inr y \<Rightarrow> (case py_comprehension f xs of Inl e \<Rightarrow> Inl e | Inr ys \<Rightarrow> Inr (y # ys)))"

text \<open>
  \<open>len(set(xs))\<close>: equal numbers are one member; NaN is equal to nothing, so every NaN
  of the sequence is a member of its own (the elements are taken to be separate objects).
\<close>

definition py_set_len :: "fl list \<Rightarrow> nat" where
  "py_set_len xs =
     length (remdups (filter (\<lambda>x. \<not> is_nan x) xs)) + length (filter is_nan xs)"

text \<open>\<open>xs[start:]\<close> for a Python list or an array.\<close>

definition py_slice_from :: "int \<Rightarrow> 'a list \<Rightarrow> 'a list" where
  "py_slice_from start xs =
     (let n = int (length xs);
          s = (if start < 0 then max 0 (n + start) else min start n)
      in drop (nat s) xs)"

subsection \<open>numpy and scipy\<close>

text \<open>
  \<open>pow\<close> of C, which \<open>np.power\<close> applies to float64: \<open>pow(x, 0)\<close> and \<open>pow(1, y)\<close>
  are 1 even for NaN; a negative base with a non-integral exponent is NaN.
\<close>

definition is_integral :: "real \<Rightarrow> bool" where
  "is_integral b = (of_int \<lfloor>b\<rfloor> = b)"

definition fl_pow :: "fl \<Rightarrow> fl \<Rightarrow> fl" where
  "fl_pow x y =
     (if is_zero y then Fin 1
      else if x = Fin 1 then Fin 1
      else if is_nan x \<or> is_nan y then NaN
      else
        (case (x, y) of
           (Fin a, Fin b) \<Rightarrow>
             (if a = 0 then (if b < 0 then PInf else Fin 0)
              else if 0 < a then Fin (a powr b)
              else if is_integral b then Fin (a powi \<lfloor>b\<rfloor>)
              else NaN)
         | (Fin a, PInf) \<Rightarrow>
             (if \<bar>a\<bar> < 1 then Fin 0 else if \<bar>a\<bar> = 1 then Fin 1 else PInf)
         | (Fin a, NInf) \<Rightarrow>
             (if \<bar>a\<bar> < 1 then PInf else if \<bar>a\<bar> = 1 then Fin 1 else Fin 0)
         | (PInf, Fin b) \<Rightarrow> (if b < 0 then Fin 0 else PInf)
         | (NInf, Fin b) \<Rightarrow>
             (if b < 0 then Fin 0
              else if is_integral b \<and> odd \<lfloor>b\<rfloor> then NInf else PInf)
         | (_, PInf) \<Rightarrow> PInf
         | (_, _) \<Rightarrow> Fin 0))"

definition np_sum :: "fl list \<Rightarrow> fl" where
  "np_sum xs = foldl fl_add (Fin 0) xs"

definition np_product :: "fl list \<Rightarrow> fl" where
  "np_product xs = foldl fl_mul (Fin 1) xs"

text \<open>\<open>np.mean\<close> divides the sum by the number of elements; of no element it is NaN.\<close>

definition np_mean :: "fl list \<Rightarrow> fl" where
  "np_mean xs = fl_div (np_sum xs) (Fin (real (length xs)))"

definition np_std :: "fl list \<Rightarrow> fl" where
  "np_std xs =
     (let m = np_mean xs
      in fl_sqrt (np_mean (map (\<lambda>x. fl_pow (fl_abs (fl_sub x m)) (Fin 2)) xs)))"

text \<open>
  A binary ufunc on two one-dimensional arrays: equal lengths elementwise, a length of
  one is broadcast, anything else is a ValueError.
\<close>

definition np_broadcast ::
  "(fl \<Rightarrow> fl \<Rightarrow> fl) \<Rightarrow> fl list \<Rightarrow> fl list \<Rightarrow> pyerr + fl list" where
  "np_broadcast f xs ys =
     (if length xs = length ys then Inr (map2 f xs ys)
      else if length xs = 1 then Inr (map (f (hd xs)) ys)
      else if length ys = 1 then Inr (map (\<lambda>x. f x (hd ys)) xs)
      else Inl ValueError)"

definition np_dot :: "fl list \<Rightarrow> fl list \<Rightarrow> pyerr + fl" where
  "np_dot xs ys =
     (if length xs = length ys then Inr (np_sum (map2 fl_mul xs ys)) else Inl ValueError)"

text \<open>\<open>ndarray.max\<close> and \<open>ndarray.min\<close>: NaN wins; no element is a ValueError.\<close>

fun np_amax :: "fl list \<Rightarrow> pyerr + fl" where
  "np_amax [] = Inl ValueError"
| "np_amax (x # xs) =
     Inr (foldl (\<lambda>m y. if is_nan m then m else if is_nan y then y
                        else if fl_lt m y then y else m) x xs)"

fun np_amin :: "fl list \<Rightarrow> pyerr + fl" where
  "np_amin [] = Inl ValueError"
| "np_amin (x # xs) =
     Inr (foldl (\<lambda>m y. if is_nan m then m else if is_nan y then y
                        else if fl_lt y m then y else m) x xs)"

text \<open>
  \<open>np.isclose(a, b)\<close> with its defaults \<open>rtol = 1e-05\<close>, \<open>atol = 1e-08\<close>: finite values
  are compared within the tolerance, which is relative to \<open>b\<close>; otherwise with \<open>==\<close>.
\<close>

definition np_isclose :: "fl \<Rightarrow> fl \<Rightarrow> bool" where
  "np_isclose a b =
     (case (a, b) of
        (Fin x, Fin y) \<Rightarrow> \<bar>x - y\<bar> \<le> 1 / 10 ^ 8 + 1 / 10 ^ 5 * \<bar>y\<bar>
      | _ \<Rightarrow> fl_eq a b)"

text \<open>
  \<open>np.average\<close>. Without weights it is \<open>np.mean\<close>. With weights of another shape it
  raises TypeError (no axis is given), with weights that sum to zero ZeroDivisionError.
\<close>

definition np_average :: "fl list \<Rightarrow> fl list option \<Rightarrow> pyerr + fl" where
  "np_average a weights =
     (case weights of
        None \<Rightarrow> Inr (np_mean a)
      | Some wgt \<Rightarrow>
          if length a \<noteq> length wgt then Inl TypeError
          else
            (let scl = np_sum wgt
             in if fl_eq scl (Fin 0) then Inl ZeroDivisionError
                else Inr (fl_div (np_sum (map2 fl_mul a wgt)) scl)))"

text \<open>
  Sorting, as \<open>np.sort\<close> and \<open>np.unique\<close> order floats: ascending, NaN last.
\<close>

fun fl_key :: "fl \<Rightarrow> nat \<times> real" where
  "fl_key NInf = (0, 0)"
| "fl_key (Fin r) = (1, r)"
| "fl_key PInf = (2, 0)"
| "fl_key NaN = (3, 0)"

definition np_sort :: "fl list \<Rightarrow> fl list" where
  "np_sort xs = sort_key fl_key xs"

definition np_unique :: "fl list \<Rightarrow> fl list" where
  "np_unique xs = sort_key fl_key (remdups xs)"

text \<open>
  \<open>scipy.stats.mode\<close> of a one-dimensional sample, as the scipy releases for which
  \<open>.mode[0]\<close> is the modal value compute it: the scores are the sorted distinct values,
  and a score replaces the candidate when it occurs strictly more often. The counts use
  \<open>==\<close>, so NaN is counted zero times; the releases of scipy differ on a sample with
  NaN, and this definition stands for them on samples without NaN only.
\<close>

definition score_count :: "fl list \<Rightarrow> fl \<Rightarrow> nat" where
  \<comment> \<open>\<open>counts = sum(a == score)\<close>\<close>
  "score_count a score = length (filter (\<lambda>x. fl_eq x score) a)"

definition mode_step :: "fl list \<Rightarrow> fl \<times> nat \<Rightarrow> fl \<Rightarrow> fl \<times> nat" where
  "mode_step a =
     (\<lambda>(mostfrequent, oldcounts) score.
        let counts = score_count a score
        in if oldcounts < counts then (score, counts) else (mostfrequent, oldcounts))"

definition scipy_mode :: "fl list \<Rightarrow> fl" where
  "scipy_mode a = fst (foldl (mode_step a) (Fin 0, 0) (np_unique a))"

text \<open>\<open>scipy.stats.mstats.gmean\<close> is \<open>scipy.stats.gmean\<close>: \<open>exp(mean(log(a)))\<close>.\<close>

definition gmean :: "fl list \<Rightarrow> fl" where
  "gmean a = fl_exp (np_mean (map fl_log a))"

subsection \<open>minimum, maximum, range\<close>

definition minimum :: "seq \<Rightarrow> seq option \<Rightarrow> pyerr + fl" where
  "minimum data_lst weights =
     (if \<not> py_in_fresh NaN data_lst then py_min (elems data_lst) else Inr NaN)"

definition maximum :: "seq \<Rightarrow> seq option \<Rightarrow> pyerr + fl" where
  "maximum data_lst weights =
     (if \<not> py_in_fresh NaN data_lst then py_max (elems data_lst) else Inr NaN)"

definition range_stat :: "seq \<Rightarrow> seq option \<Rightarrow> pyerr + fl" where
  "range_stat data_lst weights =
     (if \<not> py_in_fresh NaN data_lst then
        (case py_max (elems data_lst) of
           Inl e \<Rightarrow> Inl e
         | Inr hi \<Rightarrow>
             (case py_min (elems data_lst) of
                Inl e \<Rightarrow> Inl e
              | Inr lo \<Rightarrow> Inr (fl_sub hi lo)))
      else Inr NaN)"

subsection \<open>mean, inverse_mean, avg_dev, std_dev\<close>

definition mean :: "seq \<Rightarrow> seq option \<Rightarrow> pyerr + fl" where
  "mean data_lst weights = np_average (elems data_lst) (map_option elems weights)"

text \<open>
  \<open>[1.0 / x for x in data_lst]\<close>: the elements of a list are Python floats, whose
  division raises for a zero divisor; the elements of an array are float64 scalars,
  whose division does not.
\<close>

fun reciprocals :: "seq \<Rightarrow> pyerr + fl list" where
  "reciprocals (PyList xs) = py_comprehension (py_truediv (Fin 1)) xs"
| "reciprocals (NdArray xs) = Inr (map (fl_div (Fin 1)) xs)"

definition inverse_mean :: "seq \<Rightarrow> seq option \<Rightarrow> pyerr + fl" where
  "inverse_mean data_lst weights =
     (case reciprocals data_lst of
        Inl e \<Rightarrow> Inl e
      | Inr recips \<Rightarrow> mean (PyList recips) weights)"

definition avg_dev :: "seq \<Rightarrow> seq option \<Rightarrow> pyerr + fl" where
  "avg_dev data_lst weights =
     (case mean data_lst weights of
        Inl e \<Rightarrow> Inl e
      | Inr m \<Rightarrow>
          np_average (map (\<lambda>x. fl_abs (fl_sub x m)) (elems data_lst))
            (map_option elems weights))"

definition weights_beta :: "fl list \<Rightarrow> fl" where
  \<comment> \<open>\<open>np.sum(weights) / (np.sum(weights) ** 2 - np.sum(np.power(weights, 2)))\<close>\<close>
  "weights_beta w =
     fl_div (np_sum w)
       (fl_sub (fl_pow (np_sum w) (Fin 2)) (np_sum (map (\<lambda>x. fl_pow x (Fin 2)) w)))"

definition std_dev :: "seq \<Rightarrow> seq option \<Rightarrow> pyerr + fl" where
  "std_dev data_lst weights =
     (case weights of
        None \<Rightarrow> Inr (np_std (elems data_lst))
      | Some w \<Rightarrow>
          (let beta = weights_beta (elems w)
           in case mean data_lst weights of
                Inl e \<Rightarrow> Inl e
              | Inr m \<Rightarrow>
                  (let dev = map (\<lambda>x. fl_pow (fl_sub x m) (Fin 2)) (elems data_lst)
                   in case np_dot dev (elems w) of
                        Inl e \<Rightarrow> Inl e
                      | Inr d \<Rightarrow> Inr (fl_sqrt (fl_mul beta d)))))"

subsection \<open>holder_mean and geom_std_dev\<close>

text \<open>
  \<open>float(s)\<close> for a string of ASCII characters: surrounding whitespace, a sign, then
  \<open>inf\<close>, \<open>infinity\<close> or \<open>nan\<close> in any case, or a decimal number with an optional
  fraction and exponent, where single underscores may separate digits. Anything else is
  a ValueError. The value is the exact decimal number (no rounding, no overflow).
\<close>

definition is_space :: "char \<Rightarrow> bool" where
  "is_space c = (of_char c \<in> {9, 10, 11, 12, 13, 32 :: nat})"

definition is_digit :: "char \<Rightarrow> bool" where
  "is_digit c = (48 \<le> (of_char c :: nat) \<and> (of_char c :: nat) \<le> 57)"

definition digit_val :: "char \<Rightarrow> nat" where
  "digit_val c = of_char c - 48"

definition lower_code :: "char \<Rightarrow> nat" where
  \<comment> \<open>the character code, that of the small letter for a capital\<close>
  "lower_code c =
     (if 65 \<le> (of_char c :: nat) \<and> (of_char c :: nat) \<le> 90
      then of_char c + 32 else of_char c)"

definition strip :: "string \<Rightarrow> string" where
  "strip s = rev (dropWhile is_space (rev (dropWhile is_space s)))"

fun digits_run :: "string \<Rightarrow> nat list \<times> string" where
  "digits_run [] = ([], [])"
| "digits_run (c # cs) =
     (if \<not> is_digit c then ([], c # cs)
      else
        (case cs of
           u # d # rest \<Rightarrow>
             if u = CHR ''_'' \<and> is_digit d
             then (case digits_run (d # rest) of (ds, r) \<Rightarrow> (digit_val c # ds, r))
             else (case digits_run cs of (ds, r) \<Rightarrow> (digit_val c # ds, r))
         | _ \<Rightarrow> (case digits_run cs of (ds, r) \<Rightarrow> (digit_val c # ds, r))))"

definition digits_value :: "nat list \<Rightarrow> nat" where
  "digits_value ds = foldl (\<lambda>a d. 10 * a + d) 0 ds"

definition split_sign :: "string \<Rightarrow> bool \<times> string" where
  "split_sign s =
     (case s of
        c # cs \<Rightarrow>
          if c = CHR ''-'' then (True, cs) else if c = CHR ''+'' then (False, cs)
          else (False, s)
      | [] \<Rightarrow> (False, s))"

definition parse_exponent :: "string \<Rightarrow> int option" where
  "parse_exponent s =
     (case s of
        [] \<Rightarrow> Some 0
      | c # cs \<Rightarrow>
          if lower_code c \<noteq> 101 then None
          else
            (case split_sign cs of
               (neg, t) \<Rightarrow>
                 (case digits_run t of
                    (ds, r) \<Rightarrow>
                      if ds = [] \<or> r \<noteq> [] then None
                      else Some ((if neg then - 1 else 1) * int (digits_value ds)))))"

definition parse_decimal :: "string \<Rightarrow> real option" where
  "parse_decimal s =
     (case digits_run s of
        (ip, r1) \<Rightarrow>
          (case (case r1 of
                   c # cs \<Rightarrow> if c = CHR ''.'' then digits_run cs else ([], r1)
                 | [] \<Rightarrow> ([], r1)) of
             (fp, r2) \<Rightarrow>
               if ip = [] \<and> fp = [] then None
               else
                 (case parse_exponent r2 of
                    None \<Rightarrow> None
                  | Some e \<Rightarrow>
                      Some (real (digits_value (ip @ fp)) * 10 powi (e - int (length fp))))))"

definition py_float :: "string \<Rightarrow> pyerr + fl" where
  "py_float s =
     (case split_sign (strip s) of
        (neg, t) \<Rightarrow>
          (let name = map lower_code t
           in if name = map of_char ''inf'' \<or> name = map of_char ''infinity''
              then Inr (if neg then NInf else PInf)
              else if name = map of_char ''nan'' then Inr NaN
              else
                (case parse_decimal t of
                   None \<Rightarrow> Inl ValueError
                 | Some r \<Rightarrow> Inr (Fin (if neg then - r else r)))))"

text \<open>The parameter \<open>power\<close> is a number, or a string when it comes from \<open>calc_stat\<close>.\<close>

datatype power_arg = PNum fl | PStr string

definition holder_mean :: "seq \<Rightarrow> seq option \<Rightarrow> power_arg \<Rightarrow> pyerr + fl" where
  "holder_mean data_lst weights power0 =
     (case (case power0 of PStr s \<Rightarrow> py_float s | PNum p \<Rightarrow> Inr p) of
        Inl e \<Rightarrow> Inl e
      | Inr pw \<Rightarrow>
          (case weights of
             None \<Rightarrow>
               if fl_eq pw (Fin 0) then Inr (gmean (elems data_lst))
               else
                 Inr (fl_pow (np_mean (map (\<lambda>x. fl_pow x pw) (elems data_lst)))
                        (fl_div (Fin 1) pw))
           | Some w \<Rightarrow>
               (let alpha = py_sum (elems w)
                in if fl_eq pw (Fin 0) then
                     (case np_broadcast fl_pow (elems data_lst)
                             (map (\<lambda>x. fl_div x (np_sum (elems w))) (elems w)) of
                        Inl e \<Rightarrow> Inl e
                      | Inr ps \<Rightarrow> Inr (np_product ps))
                   else
                     (case np_broadcast fl_mul (elems w)
                             (map (\<lambda>x. fl_pow x pw) (elems data_lst)) of
                        Inl e \<Rightarrow> Inl e
                      | Inr ps \<Rightarrow>
                          Inr (fl_pow (fl_div (np_sum ps) alpha) (fl_div (Fin 1) pw))))))"

definition geom_std_dev :: "seq \<Rightarrow> seq option \<Rightarrow> pyerr + fl" where
  "geom_std_dev data_lst weights0 =
     (let weights =
            (case weights0 of
               None \<Rightarrow> NdArray (map (\<lambda>_. Fin 1) (elems data_lst))
             | Some w \<Rightarrow> w)
      in case holder_mean data_lst (Some weights) (PNum (Fin 0)) of
           Inl e \<Rightarrow> Inl e
         | Inr m \<Rightarrow>
             (let beta = weights_beta (elems weights);
                  dev = map (\<lambda>x. fl_log (fl_div x m)) (elems data_lst)
              in case np_dot (elems weights) (map (\<lambda>x. fl_pow x (Fin 2)) dev) of
                   Inl e \<Rightarrow> Inl e
                 | Inr d \<Rightarrow> Inr (fl_sqrt (fl_exp (fl_mul beta d)))))"

subsection \<open>mode\<close>

definition mode :: "seq \<Rightarrow> seq option \<Rightarrow> pyerr + fl" where
  "mode data_lst weights =
     (case weights of
        None \<Rightarrow>
          \<comment> \<open>\<open>stats.mode(data_lst).mode[0]\<close>: the mode of no data is an empty array\<close>
          if elems data_lst = [] then Inl IndexError
          else Inr (scipy_mode (elems data_lst))
      | Some w \<Rightarrow>
          (case np_amax (elems w) of
             Inl e \<Rightarrow> Inl e
           | Inr wmax \<Rightarrow>
               (let most_freq = map (\<lambda>x. np_isclose x wmax) (elems w)
                in if length most_freq \<noteq> length (elems data_lst) then Inl IndexError
                   else np_amin (map fst (filter snd (zip (elems data_lst) most_freq))))))"


subsection \<open>n_numerical_modes\<close>

text \<open>
  A parameter that is not a sequence of floats by its use: \<open>n\<close> and \<open>dl\<close> of
  \<open>n_numerical_modes\<close>, \<open>symm\<close> of \<open>eigenvalues\<close>, which \<open>calc_stat\<close> fills with
  the weights and with strings.
\<close>

datatype pyval = PyNone | PyInt int | PyFloat fl | PyStr string | PySeq seq

text \<open>
  \<open>np.arange(start, stop, step)\<close> has \<open>ceil((stop - start) / step)\<close> values
  \<open>start + i * step\<close>. A step of \<open>None\<close> is 1, a zero step raises ZeroDivisionError, a
  length that is NaN or infinite ValueError, a step that is no number TypeError. The
  quotient and the values are exact here, as all finite arithmetic of this model: they are
  numpy's where float64 computes them without rounding (integers, say); elsewhere numpy
  may round the quotient up and have one more value, as for \<open>(1.0, 1.3, 0.1)\<close>.
\<close>

definition np_arange :: "fl \<Rightarrow> fl \<Rightarrow> pyval \<Rightarrow> pyerr + real list" where
  "np_arange start stop step0 =
     (case (case step0 of
              PyNone \<Rightarrow> Inr (Fin 1)
            | PyInt i \<Rightarrow> Inr (Fin (real_of_int i))
            | PyFloat f \<Rightarrow> Inr f
            | _ \<Rightarrow> Inl TypeError) of
        Inl e \<Rightarrow> Inl e
      | Inr step \<Rightarrow>
          if is_zero step then Inl ZeroDivisionError
          else
            (case (start, stop, step) of
               (Fin lo, Fin hi, Fin d) \<Rightarrow>
                 Inr (map (\<lambda>i. lo + real i * d) [0 ..< nat \<lceil>(hi - lo) / d\<rceil>])
             | (Fin lo, Fin hi, PInf) \<Rightarrow> Inr []
             | (Fin lo, Fin hi, NInf) \<Rightarrow> Inr []
             | _ \<Rightarrow> Inl ValueError))"

text \<open>
  \<open>np.histogram(a, bins=edges)\<close> for increasing edges: one count for each pair of
  neighbouring edges; a bin holds the values from its left edge up to, and without, its
  right edge; the last bin holds its right edge too. NaN is in no bin.
\<close>

definition in_bin :: "real list \<Rightarrow> nat \<Rightarrow> fl \<Rightarrow> bool" where
  "in_bin edges i x =
     (fl_le (Fin (edges ! i)) x \<and>
      (if Suc (Suc i) = length edges then fl_le x (Fin (edges ! Suc i))
       else fl_lt x (Fin (edges ! Suc i))))"

definition np_histogram :: "fl list \<Rightarrow> real list \<Rightarrow> nat list" where
  "np_histogram a edges =
     map (\<lambda>i. length (filter (in_bin edges i) a)) [0 ..< length edges - 1]"

text \<open>
  \<open>np.argsort\<close> returns the indices in ascending order of their values; numpy's default
  sort leaves the order of equal values open. So \<open>n_numerical_modes\<close> takes the sorting
  as a parameter \<open>argsort\<close>, of which \<open>is_argsort\<close> says what numpy promises;
  \<open>np_argsort\<close>, which keeps equal values in the order of their indices, is one such
  sorting.
\<close>

definition is_argsort :: "nat list \<Rightarrow> nat list \<Rightarrow> bool" where
  "is_argsort h idx =
     (length idx = length h \<and> distinct idx \<and> set idx = {0 ..< length h}
      \<and> sorted (map (\<lambda>i. h ! i) idx))"

definition np_argsort :: "nat list \<Rightarrow> nat list" where
  "np_argsort h = sort_key (\<lambda>i. h ! i) [0 ..< length h]"

definition n_numerical_modes ::
  "(nat list \<Rightarrow> nat list) \<Rightarrow> seq \<Rightarrow> pyval \<Rightarrow> pyval \<Rightarrow> pyerr + fl list" where
  "n_numerical_modes argsort data_lst n dl =
     (if py_set_len (elems data_lst) = 1 then
        (case n of
           PyInt k \<Rightarrow> Inr ([hd (elems data_lst)] @ replicate (nat (k - 1)) NaN)
         | _ \<Rightarrow> Inl TypeError)
      else
        (case py_min (elems data_lst) of
           Inl e \<Rightarrow> Inl e
         | Inr lo \<Rightarrow>
             (case py_max (elems data_lst) of
                Inl e \<Rightarrow> Inl e
              | Inr hi \<Rightarrow>
                  (case np_arange lo hi dl of
                     Inl e \<Rightarrow> Inl e
                   | Inr bins \<Rightarrow>
                       (let hist = np_histogram (elems data_lst) bins
                        in case n of
                             PyInt k \<Rightarrow>
                               (let modes =
                                      rev (map (\<lambda>i. Fin (bins ! i))
                                             (py_slice_from (- k) (argsort hist)))
                                in Inr (modes @
                                        replicate (nat (k - int (length modes))) NaN))
                           | _ \<Rightarrow> Inl TypeError)))))"

subsection \<open>sorted, eigenvalues, flatten\<close>

definition sorted_stat :: "seq \<Rightarrow> pyerr + fl list" where
  "sorted_stat data_lst = Inr (np_sort (elems data_lst))"

text \<open>
  The truth value of an object, as \<open>if symm\<close> takes it: an array of more than one
  element has none (ValueError).
\<close>

fun py_bool :: "pyval \<Rightarrow> pyerr + bool" where
  "py_bool PyNone = Inr False"
| "py_bool (PyInt i) = Inr (i \<noteq> 0)"
| "py_bool (PyFloat f) = Inr (\<not> is_zero f)"
| "py_bool (PyStr s) = Inr (s \<noteq> [])"
| "py_bool (PySeq (PyList xs)) = Inr (xs \<noteq> [])"
| "py_bool (PySeq (NdArray xs)) =
     (case xs of [] \<Rightarrow> Inr False | [x] \<Rightarrow> Inr (\<not> is_zero x) | _ \<Rightarrow> Inl ValueError)"

text \<open>
  \<open>eigenvalues\<close> of a sample of this model, which is one-dimensional:
  \<open>np.linalg.eigvals\<close> and \<open>eigvalsh\<close> both reject it with LinAlgError.
\<close>

definition eigenvalues :: "seq \<Rightarrow> pyval \<Rightarrow> pyval \<Rightarrow> pyerr + fl list" where
  "eigenvalues data_lst symm sort0 =
     (case py_bool symm of Inl e \<Rightarrow> Inl e | Inr _ \<Rightarrow> Inl LinAlgError)"

definition flatten :: "seq \<Rightarrow> pyerr + fl list" where
  "flatten data_lst = Inr (elems data_lst)"

subsection \<open>The kernels\<close>

text \<open>
  An argument of a kernel is a list, an array, or a \<open>numpy.matrix\<close>, which is
  two-dimensional: its numbers of rows and columns and its entries row by row.
\<close>

datatype karg = KSeq seq | KMatrix nat nat "fl list"

fun shape2 :: "karg \<Rightarrow> nat \<times> nat \<times> fl list" where
  "shape2 (KSeq s) = (1, length (elems s), elems s)"
| "shape2 (KMatrix r c xs) = (r, c, xs)"

text \<open>Broadcasting of a binary ufunc in two dimensions.\<close>

definition np_broadcast2 ::
  "(fl \<Rightarrow> fl \<Rightarrow> fl) \<Rightarrow> nat \<times> nat \<times> fl list \<Rightarrow> nat \<times> nat \<times> fl list
     \<Rightarrow> pyerr + nat \<times> nat \<times> fl list" where
  "np_broadcast2 f a b =
     (case (a, b) of
        ((r1, c1, xs), (r2, c2, ys)) \<Rightarrow>
          if (r1 = r2 \<or> r1 = 1 \<or> r2 = 1) \<and> (c1 = c2 \<or> c1 = 1 \<or> c2 = 1) then
            (let r = (if r1 = 1 then r2 else r1);
                 c = (if c1 = 1 then c2 else c1)
             in Inr (r, c,
                  concat (map (\<lambda>i. map (\<lambda>j.
                      f (xs ! ((if r1 = 1 then 0 else i) * c1 + (if c1 = 1 then 0 else j)))
                        (ys ! ((if r2 = 1 then 0 else i) * c2 + (if c2 = 1 then 0 else j))))
                    [0 ..< c]) [0 ..< r])))
          else Inl ValueError)"

text \<open>
  \<open>arr0 - arr1\<close>: two lists have no subtraction (TypeError); with an array the result
  is an array; with a matrix it is a matrix.
\<close>

fun kernel_diff :: "karg \<Rightarrow> karg \<Rightarrow> pyerr + karg" where
  "kernel_diff (KSeq (PyList xs)) (KSeq (PyList ys)) = Inl TypeError"
| "kernel_diff (KSeq a) (KSeq b) =
     (case np_broadcast fl_sub (elems a) (elems b) of
        Inl e \<Rightarrow> Inl e
      | Inr d \<Rightarrow> Inr (KSeq (NdArray d)))"
| "kernel_diff a b =
     (case np_broadcast2 fl_sub (shape2 a) (shape2 b) of
        Inl e \<Rightarrow> Inl e
      | Inr (r, c, d) \<Rightarrow> Inr (KMatrix r c d))"

text \<open>The attribute \<open>A1\<close>, the flattened entries, exists on a matrix only.\<close>

fun attr_A1 :: "karg \<Rightarrow> pyerr + fl list" where
  "attr_A1 (KMatrix r c xs) = Inr xs"
| "attr_A1 (KSeq s) = Inl AttributeError"

definition norm1 :: "fl list \<Rightarrow> fl" where
  "norm1 v = np_sum (map fl_abs v)"

definition norm2 :: "fl list \<Rightarrow> fl" where
  "norm2 v = fl_sqrt (np_sum (map (\<lambda>x. fl_pow (fl_abs x) (Fin 2)) v))"

definition laplacian_kernel :: "karg \<Rightarrow> karg \<Rightarrow> fl \<Rightarrow> pyerr + fl" where
  "laplacian_kernel arr0 arr1 sigma =
     (case kernel_diff arr0 arr1 of
        Inl e \<Rightarrow> Inl e
      | Inr diff \<Rightarrow>
          (case attr_A1 diff of
             Inl e \<Rightarrow> Inl e
           | Inr v \<Rightarrow> Inr (fl_exp (fl_div (fl_neg (norm1 v)) sigma))))"

definition gaussian_kernel :: "karg \<Rightarrow> karg \<Rightarrow> fl \<Rightarrow> pyerr + fl" where
  "gaussian_kernel arr0 arr1 sigma =
     (case kernel_diff arr0 arr1 of
        Inl e \<Rightarrow> Inl e
      | Inr diff \<Rightarrow>
          (case attr_A1 diff of
             Inl e \<Rightarrow> Inl e
           | Inr v \<Rightarrow>
               Inr (fl_exp (fl_div (fl_div (fl_neg (fl_pow (norm2 v) (Fin 2))) (Fin 2))
                                   (fl_pow sigma (Fin 2))))))"


subsection \<open>calc_stat\<close>

text \<open>
  \<open>stat.split("__")\<close>: the string is cut at each occurrence of the delimiter, found from
  the left; there is always at least one token.
\<close>

fun py_split :: "string \<Rightarrow> string list" where
  "py_split [] = [[]]"
| "py_split [c] = [[c]]"
| "py_split (c # d # cs) =
     (if c = CHR ''_'' \<and> d = CHR ''_'' then [] # py_split cs
      else (case py_split (d # cs) of [] \<Rightarrow> [[c]] | t # ts \<Rightarrow> (c # t) # ts))"

text \<open>\<open>"__".join(tokens)\<close>, the inverse of the split.\<close>

fun py_join :: "string list \<Rightarrow> string" where
  "py_join [] = []"
| "py_join [t] = t"
| "py_join (t # u # ts) = t @ ''__'' @ py_join (u # ts)"

text \<open>
  The value a statistic returns: a number, or an array of numbers.
\<close>

datatype pyres = Num fl | Arr "fl list"

text \<open>
  The methods of the class, which are the statistics that can be named, and the
  attributes that \<open>getattr(PropertyStats, name)\<close> finds for a token of the split: the
  methods and \<open>mro\<close>, which every class has. (The other attributes of a class have names
  with a double underscore, which no token contains.)
\<close>

definition PropertyStats_methods :: "string list" where
  "PropertyStats_methods =
     [''calc_stat'', ''minimum'', ''maximum'', ''range'', ''mean'', ''inverse_mean'',
      ''avg_dev'', ''std_dev'', ''geom_std_dev'', ''mode'', ''n_numerical_modes'',
      ''holder_mean'', ''sorted'', ''eigenvalues'', ''flatten'', ''laplacian_kernel'',
      ''gaussian_kernel'']"

definition PropertyStats_attrs :: "string list" where
  "PropertyStats_attrs = PropertyStats_methods @ [''mro'']"

definition as_pyval :: "seq option \<Rightarrow> pyval" where
  "as_pyval w = (case w of None \<Rightarrow> PyNone | Some s \<Rightarrow> PySeq s)"

text \<open>
  A kernel reached through \<open>calc_stat\<close>: its second array is the weights and its
  \<open>SIGMA\<close> a string, by which no number can be divided.
\<close>

definition kernel_of_weights :: "seq \<Rightarrow> seq option \<Rightarrow> pyerr + pyres" where
  "kernel_of_weights data_lst weights =
     (case weights of
        None \<Rightarrow> Inl TypeError
      | Some w \<Rightarrow>
          (case kernel_diff (KSeq data_lst) (KSeq w) of
             Inl e \<Rightarrow> Inl e
           | Inr diff \<Rightarrow>
               (case attr_A1 diff of Inl e \<Rightarrow> Inl e | Inr v \<Rightarrow> Inl TypeError)))"

text \<open>
  \<open>getattr(PropertyStats, name)(data_lst, weights, *args)\<close>. An unknown name raises
  AttributeError; a call with more or fewer positional arguments than the method takes
  raises TypeError before the method runs.
\<close>

definition call_method ::
  "string \<Rightarrow> seq \<Rightarrow> seq option \<Rightarrow> string list \<Rightarrow> pyerr + pyres" where
  "call_method name data_lst weights args =
     (if name \<notin> set PropertyStats_attrs then Inl AttributeError
      else if name = ''calc_stat'' then
        \<comment> \<open>\<open>calc_stat(data_lst, stat=weights, ...)\<close>: the weights have no \<open>split\<close>\<close>
        (if length args \<le> 1 then Inl AttributeError else Inl TypeError)
      else if name = ''minimum'' then
        (if args = [] then map_sum id Num (minimum data_lst weights) else Inl TypeError)
      else if name = ''maximum'' then
        (if args = [] then map_sum id Num (maximum data_lst weights) else Inl TypeError)
      else if name = ''range'' then
        (if args = [] then map_sum id Num (range_stat data_lst weights) else Inl TypeError)
      else if name = ''mean'' then
        (if args = [] then map_sum id Num (mean data_lst weights) else Inl TypeError)
      else if name = ''inverse_mean'' then
        (if args = [] then map_sum id Num (inverse_mean data_lst weights) else Inl TypeError)
      else if name = ''avg_dev'' then
        (if args = [] then map_sum id Num (avg_dev data_lst weights) else Inl TypeError)
      else if name = ''std_dev'' then
        (if args = [] then map_sum id Num (std_dev data_lst weights) else Inl TypeError)
      else if name = ''geom_std_dev'' then
        (if args = [] then map_sum id Num (geom_std_dev data_lst weights) else Inl TypeError)
      else if name = ''mode'' then
        (if args = [] then map_sum id Num (mode data_lst weights) else Inl TypeError)
      else if name = ''n_numerical_modes'' then
        \<comment> \<open>\<open>n_numerical_modes(data_lst, n, dl=0.1)\<close>: the weights are \<open>n\<close>, no integer,
            and the call raises whatever the order of the sorting\<close>
        (case args of
           [] \<Rightarrow>
             map_sum id Arr
               (n_numerical_modes np_argsort data_lst (as_pyval weights)
                  (PyFloat (Fin (1 / 10))))
         | [a] \<Rightarrow>
             map_sum id Arr
               (n_numerical_modes np_argsort data_lst (as_pyval weights) (PyStr a))
         | _ \<Rightarrow> Inl TypeError)
      else if name = ''holder_mean'' then
        (case args of
           [] \<Rightarrow> map_sum id Num (holder_mean data_lst weights (PNum (Fin 1)))
         | [a] \<Rightarrow> map_sum id Num (holder_mean data_lst weights (PStr a))
         | _ \<Rightarrow> Inl TypeError)
      else if name = ''sorted'' then
        \<comment> \<open>\<open>sorted(data_lst)\<close> takes one argument and is given two or more\<close>
        Inl TypeError
      else if name = ''eigenvalues'' then
        (case args of
           [] \<Rightarrow> map_sum id Arr (eigenvalues data_lst (as_pyval weights) (PyInt 0))
         | [a] \<Rightarrow> map_sum id Arr (eigenvalues data_lst (as_pyval weights) (PyStr a))
         | _ \<Rightarrow> Inl TypeError)
      else if name = ''flatten'' then Inl TypeError
      else if name = ''laplacian_kernel'' \<or> name = ''gaussian_kernel'' then
        (if length args = 1 then kernel_of_weights data_lst weights else Inl TypeError)
      else
        \<comment> \<open>\<open>mro\<close> takes no argument\<close>
        Inl TypeError)"

definition calc_stat :: "seq \<Rightarrow> string \<Rightarrow> seq option \<Rightarrow> pyerr + pyres" where
  "calc_stat data_lst stat weights =
     (let statistics = py_split stat
      in call_method (hd statistics) data_lst weights (tl statistics))"


section \<open>Properties\<close>

subsection \<open>Arithmetic of the floats\<close>

lemma fl_pow_one [simp]: "fl_pow x (Fin 1) = x"
  by (cases x) (auto simp: fl_pow_def is_integral_def)

lemma fl_pow_Fin_2: "fl_pow (Fin a) (Fin 2) = Fin (a\<^sup>2)"
  by (auto simp: fl_pow_def is_integral_def)

lemma fl_mul_one [simp]: "fl_mul x (Fin 1) = x"
  by (cases x) auto

lemma fl_mul_commute: "fl_mul a b = fl_mul b a"
  by (cases a; cases b) (auto simp: mult.commute)

lemma foldl_fl_add_Fin: "foldl fl_add (Fin a) (map Fin xs) = Fin (a + sum_list xs)"
  by (induction xs arbitrary: a) (auto simp: add.assoc)

lemma np_sum_Fin: "np_sum (map Fin xs) = Fin (sum_list xs)"
  by (simp add: np_sum_def foldl_fl_add_Fin)

lemma np_sum_replicate_one: "np_sum (replicate n (Fin 1)) = Fin (real n)"
  using np_sum_Fin[of "replicate n 1"] by (simp add: sum_list_replicate)

lemma map2_fl_mul_Fin: "map2 fl_mul (map Fin xs) (map Fin ws) = map Fin (map2 (*) xs ws)"
  by (induction xs arbitrary: ws) (auto split: list.splits simp: zip_Cons1)

lemma map2_replicate: "map2 f xs (replicate (length xs) c) = map (\<lambda>x. f x c) xs"
  by (induction xs) auto

lemma map2_fl_mul_commute: "map2 fl_mul xs ys = map2 fl_mul ys xs"
proof (induction xs arbitrary: ys)
  case Nil
  show ?case by simp
next
  case (Cons x xs)
  then show ?case by (cases ys) (auto simp: fl_mul_commute)
qed

subsection \<open>Splitting the identifier and dispatch\<close>

lemma py_split_nonempty: "py_split s \<noteq> []"
  by (induction s rule: py_split.induct) (auto split: list.splits)

lemma py_join_split: "py_join (py_split s) = s"
proof (induction s rule: py_split.induct)
  case 1
  show ?case by simp
next
  case (2 c)
  show ?case by simp
next
  case (3 c d cs)
  show ?case
  proof (cases "c = CHR ''_'' \<and> d = CHR ''_''")
    case True
    with 3 py_split_nonempty[of cs] show ?thesis
      by (cases "py_split cs") auto
  next
    case False
    with 3 py_split_nonempty[of "d # cs"] show ?thesis
      by (cases "py_split (d # cs)"; cases "tl (py_split (d # cs))") auto
  qed
qed

lemmas py_float_defs =
  py_float_def split_sign_def strip_def is_space_def parse_decimal_def is_digit_def
  digit_val_def digits_value_def parse_exponent_def lower_code_def

lemma py_float_2: "py_float ''2'' = Inr (Fin 2)"
  by (simp add: py_float_defs)

lemma calc_stat_minimum:
  "calc_stat data_lst ''minimum'' weights = map_sum id Num (minimum data_lst weights)"
  by (simp add: calc_stat_def call_method_def PropertyStats_attrs_def PropertyStats_methods_def)

lemma calc_stat_holder_mean_arg:
  "py_split p = [p] \<Longrightarrow>
   calc_stat data_lst (''holder_mean__'' @ p) weights =
     map_sum id Num (holder_mean data_lst weights (PStr p))"
  by (simp add: calc_stat_def call_method_def PropertyStats_attrs_def PropertyStats_methods_def)

lemma holder_mean_str_2:
  "holder_mean data_lst weights (PStr ''2'') = holder_mean data_lst weights (PNum (Fin 2))"
  by (simp add: holder_mean_def py_float_2)

lemma mean_1_4_9: "mean (PyList [Fin 1, Fin 4, Fin 9]) None = Inr (Fin (14 / 3))"
  by (simp add: mean_def np_average_def np_mean_def np_sum_def)

lemma calc_stat_holder_mean_2_example:
  "calc_stat (PyList [Fin 1, Fin 2, Fin 3]) ''holder_mean__2'' None =
     Inr (Num (Fin (sqrt (14 / 3))))"
  apply (simp add: calc_stat_def call_method_def PropertyStats_attrs_def PropertyStats_methods_def holder_mean_def
      py_float_2)
  apply (simp add: fl_eq_def np_mean_def np_sum_def fl_pow_def is_integral_def powr_half_sqrt)
  done

text \<open>
  Claim C1. \<open>calc_stat\<close> splits the identifier at \<open>__\<close> (joining the tokens with \<open>__\<close>
  gives the identifier back), looks the first token up and calls what it finds with the
  data, the weights and the other tokens, which stay strings. For every sample
  \<open>calc_stat(values, "minimum")\<close> is \<open>minimum(values)\<close>. A parameter \<open>p\<close> after
  \<open>holder_mean__\<close> reaches \<open>holder_mean\<close> as the string \<open>p\<close>, and \<open>holder_mean\<close> turns
  the string \<open>"2"\<close> into the float 2.0, so that
  \<open>calc_stat([1, 2, 3], "holder_mean__2")\<close> is the square root of \<open>mean([1, 4, 9])\<close>,
  the number \<open>sqrt(14 / 3)\<close>.
\<close>

theorem calc_stat_parses_identifier:
  "py_join (py_split stat) = stat
   \<and> calc_stat data_lst stat weights =
       call_method (hd (py_split stat)) data_lst weights (tl (py_split stat))
   \<and> calc_stat data_lst ''minimum'' weights = map_sum id Num (minimum data_lst weights)
   \<and> (py_split p = [p] \<longrightarrow>
        calc_stat data_lst (''holder_mean__'' @ p) weights =
          map_sum id Num (holder_mean data_lst weights (PStr p)))
   \<and> holder_mean data_lst weights (PStr ''2'') = holder_mean data_lst weights (PNum (Fin 2))
   \<and> calc_stat (PyList [Fin 1, Fin 2, Fin 3]) ''holder_mean__2'' None =
       map_sum id (\<lambda>m. Num (fl_sqrt m)) (mean (PyList [Fin 1, Fin 4, Fin 9]) None)
   \<and> calc_stat (PyList [Fin 1, Fin 2, Fin 3]) ''holder_mean__2'' None =
       Inr (Num (Fin (sqrt (14 / 3))))"
proof -
  have "calc_stat data_lst stat weights =
      call_method (hd (py_split stat)) data_lst weights (tl (py_split stat))"
    by (simp add: calc_stat_def Let_def)
  moreover have "calc_stat (PyList [Fin 1, Fin 2, Fin 3]) ''holder_mean__2'' None =
      map_sum id (\<lambda>m. Num (fl_sqrt m)) (mean (PyList [Fin 1, Fin 4, Fin 9]) None)"
    by (simp only: calc_stat_holder_mean_2_example mean_1_4_9) simp
  ultimately show ?thesis
    using py_join_split calc_stat_minimum calc_stat_holder_mean_arg holder_mean_str_2
      calc_stat_holder_mean_2_example
    by blast
qed

theorem calc_stat_parses_identifier_witness:
  "py_split ''2'' = [''2'']
   \<and> py_join (py_split ''holder_mean__2'') = ''holder_mean__2''
   \<and> calc_stat (PyList [Fin 1, Fin 2, Fin 3]) (''holder_mean__'' @ ''2'') None =
       map_sum id Num (holder_mean (PyList [Fin 1, Fin 2, Fin 3]) None (PStr ''2''))"
proof -
  note t = calc_stat_parses_identifier
    [of "''holder_mean__2''" "PyList [Fin 1, Fin 2, Fin 3]" None "''2''"]
  have h: "py_split ''2'' = [''2'']"
    by simp
  from t have a: "py_join (py_split ''holder_mean__2'') = ''holder_mean__2''"
    by blast
  from t have "py_split ''2'' = [''2''] \<longrightarrow>
      calc_stat (PyList [Fin 1, Fin 2, Fin 3]) (''holder_mean__'' @ ''2'') None =
        map_sum id Num (holder_mean (PyList [Fin 1, Fin 2, Fin 3]) None (PStr ''2''))"
    by blast
  with h a show ?thesis
    by blast
qed

lemma calc_stat_no_attribute:
  "hd (py_split stat) \<notin> set PropertyStats_attrs \<Longrightarrow>
   calc_stat data_lst stat weights = Inl AttributeError"
  by (simp add: calc_stat_def call_method_def)

lemma calc_stat_mro:
  "hd (py_split stat) = ''mro'' \<Longrightarrow> calc_stat data_lst stat weights = Inl TypeError"
  by (simp add: calc_stat_def call_method_def PropertyStats_attrs_def PropertyStats_methods_def)

lemma calc_stat_no_method:
  assumes "hd (py_split stat) \<notin> set PropertyStats_methods"
  shows "calc_stat data_lst stat weights =
     (if hd (py_split stat) = ''mro'' then Inl TypeError else Inl AttributeError)"
proof (cases "hd (py_split stat) = ''mro''")
  case True
  then show ?thesis
    by (simp add: calc_stat_mro)
next
  case False
  with assms have "hd (py_split stat) \<notin> set PropertyStats_attrs"
    by (simp add: PropertyStats_attrs_def)
  with False show ?thesis
    by (simp add: calc_stat_no_attribute)
qed

text \<open>
  Claim C9, as stated, fails: \<open>mro\<close> is no method of the class and names no statistic,
  but the lookup finds it, as on every class, and the call with the sample and the
  weights raises TypeError, not the error of the lookup.
\<close>

theorem calc_stat_mro_is_found:
  "hd (py_split ''mro'') \<notin> set PropertyStats_methods
   \<and> calc_stat (PyList [Fin 1, Fin 2, Fin 3]) ''mro'' None = Inl TypeError"
  by (simp add: calc_stat_def call_method_def PropertyStats_attrs_def PropertyStats_methods_def)

text \<open>
  Claim C9, amended. When the first token of the identifier is not the name of a method
  of the class, \<open>calc_stat\<close> fails whatever the sample and the weights: with the error of
  the lookup, AttributeError, when the token is no attribute of the class (as
  \<open>not_a_stat\<close>), and with TypeError for the token \<open>mro\<close>.
\<close>

theorem calc_stat_unknown_statistic:
  "(hd (py_split stat) \<notin> set PropertyStats_attrs \<longrightarrow>
      calc_stat data_lst stat weights = Inl AttributeError)
   \<and> (hd (py_split stat) \<notin> set PropertyStats_methods \<longrightarrow>
        calc_stat data_lst stat weights =
          (if hd (py_split stat) = ''mro'' then Inl TypeError else Inl AttributeError))"
  using calc_stat_no_attribute[of stat data_lst weights]
    calc_stat_no_method[of stat data_lst weights]
  by blast

theorem calc_stat_unknown_statistic_witness:
  "hd (py_split ''not_a_stat'') \<notin> set PropertyStats_attrs
   \<and> hd (py_split ''not_a_stat__2'') \<notin> set PropertyStats_methods
   \<and> calc_stat (PyList [Fin 1, Fin 2, Fin 3]) ''not_a_stat'' None = Inl AttributeError
   \<and> calc_stat (NdArray []) ''not_a_stat__2'' (Some (PyList [Fin 1])) = Inl AttributeError"
proof -
  note t = calc_stat_unknown_statistic
    [of "''not_a_stat''" "PyList [Fin 1, Fin 2, Fin 3]" None]
  note u = calc_stat_unknown_statistic
    [of "''not_a_stat__2''" "NdArray []" "Some (PyList [Fin 1])"]
  have h1: "hd (py_split ''not_a_stat'') \<notin> set PropertyStats_attrs"
    by (simp add: PropertyStats_attrs_def PropertyStats_methods_def)
  have h2: "hd (py_split ''not_a_stat__2'') \<notin> set PropertyStats_methods"
    by (simp add: PropertyStats_methods_def)
  have n: "hd (py_split ''not_a_stat__2'') \<noteq> ''mro''"
    by simp
  from t h1 have a: "calc_stat (PyList [Fin 1, Fin 2, Fin 3]) ''not_a_stat'' None =
      Inl AttributeError"
    by blast
  from u h2 have "calc_stat (NdArray []) ''not_a_stat__2'' (Some (PyList [Fin 1])) =
      (if hd (py_split ''not_a_stat__2'') = ''mro'' then Inl TypeError else Inl AttributeError)"
    by blast
  with n have b: "calc_stat (NdArray []) ''not_a_stat__2'' (Some (PyList [Fin 1])) =
      Inl AttributeError"
    by (simp only: if_False)
  from h1 h2 a b show ?thesis
    by blast
qed

subsection \<open>minimum, maximum, range\<close>

lemma not_py_in_fresh_NaN: "\<not> py_in_fresh NaN s"
  by (simp add: py_in_fresh_def fl_eq_def list_ex_iff)

lemma minimum_is_py_min: "minimum data_lst weights = py_min (elems data_lst)"
  by (simp add: minimum_def not_py_in_fresh_NaN)

lemma maximum_is_py_max: "maximum data_lst weights = py_max (elems data_lst)"
  by (simp add: maximum_def not_py_in_fresh_NaN)

text \<open>
  Claim C2. The three functions do ignore the weights, but the test
  \<open>float("nan") not in data_lst\<close> is true of every sample, because NaN is equal to
  nothing: a NaN in the sample is not detected. For the sample \<open>[1.0, nan]\<close> the
  minimum and the maximum are 1.0 and the range is 0.0, not NaN.
\<close>

theorem minimum_maximum_range_nan_undetected:
  "minimum (PyList [Fin 1, NaN]) None = Inr (Fin 1)
   \<and> maximum (PyList [Fin 1, NaN]) None = Inr (Fin 1)
   \<and> range_stat (PyList [Fin 1, NaN]) None = Inr (Fin 0)"
  by (simp add: minimum_def maximum_def range_stat_def not_py_in_fresh_NaN fl_sub_def)


subsection \<open>mean and holder_mean\<close>

lemma holder_mean_1_mean:
  "length (elems x) = length (elems w) \<Longrightarrow> \<not> fl_eq (np_sum (elems w)) (Fin 0) \<Longrightarrow>
   holder_mean x (Some w) (PNum (Fin 1)) = mean x (Some w)"
  by (simp add: holder_mean_def mean_def np_average_def fl_eq_def np_broadcast_def
      py_sum_def np_sum_def map2_fl_mul_commute[of "elems w"] Let_def)

lemma mean_uniform_weights:
  "elems x \<noteq> [] \<Longrightarrow>
   mean x None = mean x (Some (PyList (replicate (length (elems x)) (Fin 1))))"
  by (simp add: mean_def np_average_def np_sum_replicate_one fl_eq_def map2_replicate
      np_mean_def)

lemma mean_weighted_formula:
  assumes "length xs = length ws" and "sum_list ws \<noteq> 0"
  shows "mean (PyList (map Fin xs)) (Some (PyList (map Fin ws))) =
           Inr (Fin (sum_list (map2 (\<lambda>x w. w * x) xs ws) / sum_list ws))"
proof -
  have e: "(\<lambda>(x::real, w). w * x) = (\<lambda>(x, w). x * w)"
    by (auto simp: fun_eq_iff mult.commute)
  have "np_sum (map2 fl_mul (map Fin xs) (map Fin ws)) =
          Fin (sum_list (map2 (\<lambda>x w. w * x) xs ws))"
    by (simp only: map2_fl_mul_Fin np_sum_Fin e)
  with assms show ?thesis
    by (simp add: mean_def np_average_def np_sum_Fin fl_eq_def del: map_map)
qed

text \<open>
  Claim C8. For a sample \<open>x\<close> and weights \<open>w\<close> of the same length that do not sum to
  zero (the weights \<open>np.average\<close> accepts), \<open>holder_mean(x, w, power=1)\<close> is
  \<open>mean(x, w)\<close>; for finite numbers this is the sum of the \<open>w_i * x_i\<close> divided by the
  sum of the \<open>w_i\<close>. For a non-empty sample \<open>mean(x, None)\<close> is the mean with the
  weights \<open>[1, ..., 1]\<close>.
\<close>

theorem holder_mean_power_1_is_mean:
  "(length (elems x) = length (elems w) \<and> \<not> fl_eq (np_sum (elems w)) (Fin 0) \<longrightarrow>
      holder_mean x (Some w) (PNum (Fin 1)) = mean x (Some w))
   \<and> (length xs = length ws \<and> sum_list ws \<noteq> 0 \<longrightarrow>
        mean (PyList (map Fin xs)) (Some (PyList (map Fin ws))) =
          Inr (Fin (sum_list (map2 (\<lambda>x w. w * x) xs ws) / sum_list ws)))
   \<and> (elems x \<noteq> [] \<longrightarrow>
        mean x None = mean x (Some (PyList (replicate (length (elems x)) (Fin 1)))))"
  using holder_mean_1_mean mean_uniform_weights mean_weighted_formula by blast

theorem holder_mean_power_1_is_mean_witness:
  "holder_mean (PyList [Fin 1, Fin 2]) (Some (PyList [Fin 1, Fin 3])) (PNum (Fin 1)) =
     Inr (Fin (7 / 4))
   \<and> mean (PyList [Fin 1, Fin 2]) (Some (PyList [Fin 1, Fin 3])) = Inr (Fin (7 / 4))
   \<and> mean (PyList [Fin 1, Fin 2]) None =
       mean (PyList [Fin 1, Fin 2]) (Some (PyList [Fin 1, Fin 1]))"
proof -
  note t = holder_mean_power_1_is_mean
    [of "PyList [Fin 1, Fin 2]" "PyList [Fin 1, Fin 3]" "[1, 2]" "[1, 3]"]
  have h1: "length (elems (PyList [Fin 1, Fin 2])) = length (elems (PyList [Fin 1, Fin 3]))
      \<and> \<not> fl_eq (np_sum (elems (PyList [Fin 1, Fin 3]))) (Fin 0)"
    by (simp add: np_sum_def fl_eq_def)
  have h2: "length [1, 2 :: real] = length [1, 3 :: real] \<and> sum_list [1, 3 :: real] \<noteq> 0"
    by simp
  have h3: "elems (PyList [Fin 1, Fin 2]) \<noteq> []"
    by simp
  from t h1 have a: "holder_mean (PyList [Fin 1, Fin 2]) (Some (PyList [Fin 1, Fin 3]))
      (PNum (Fin 1)) = mean (PyList [Fin 1, Fin 2]) (Some (PyList [Fin 1, Fin 3]))"
    by blast
  from t h2 have b: "mean (PyList (map Fin [1, 2])) (Some (PyList (map Fin [1, 3]))) =
      Inr (Fin (sum_list (map2 (\<lambda>x w. w * x) [1, 2] [1, 3]) / sum_list [1, 3]))"
    by blast
  from t h3 have c: "mean (PyList [Fin 1, Fin 2]) None =
      mean (PyList [Fin 1, Fin 2])
        (Some (PyList (replicate (length (elems (PyList [Fin 1, Fin 2]))) (Fin 1))))"
    by blast
  from b have b': "mean (PyList [Fin 1, Fin 2]) (Some (PyList [Fin 1, Fin 3])) =
      Inr (Fin (7 / 4))"
    by simp
  from c have c': "mean (PyList [Fin 1, Fin 2]) None =
      mean (PyList [Fin 1, Fin 2]) (Some (PyList [Fin 1, Fin 1]))"
    by (simp add: numeral_2_eq_2)
  from a b' c' show ?thesis
    by simp
qed


subsection \<open>inverse_mean\<close>

lemma py_comprehension_truediv:
  "py_comprehension (py_truediv a) xs =
     (if list_ex is_zero xs then Inl ZeroDivisionError else Inr (map (fl_div a) xs))"
  by (induction xs) (auto simp: py_truediv_def)

lemma inverse_mean_no_zero:
  "\<not> list_ex is_zero (elems d) \<Longrightarrow>
   inverse_mean d w = mean (PyList (map (fl_div (Fin 1)) (elems d))) w"
  by (cases d) (simp_all add: inverse_mean_def py_comprehension_truediv)

lemma inverse_mean_list_zero:
  "list_ex is_zero xs \<Longrightarrow> inverse_mean (PyList xs) w = Inl ZeroDivisionError"
  by (simp add: inverse_mean_def py_comprehension_truediv)

lemma inverse_mean_array:
  "inverse_mean (NdArray xs) w = mean (PyList (map (fl_div (Fin 1)) xs)) w"
  by (simp add: inverse_mean_def)

lemma map_fl_div_Fin:
  "0 \<notin> set xs \<Longrightarrow> map (fl_div (Fin 1)) (map Fin xs) = map Fin (map inverse xs)"
  by (induction xs) (auto simp: inverse_eq_divide)

lemma inverse_mean_formula:
  assumes "0 \<notin> set xs" "length xs = length ws" "sum_list ws \<noteq> 0"
  shows "inverse_mean (PyList (map Fin xs)) (Some (PyList (map Fin ws))) =
     Inr (Fin (sum_list (map2 (\<lambda>x w. w * (1 / x)) xs ws) / sum_list ws))"
proof -
  have nz: "\<not> list_ex is_zero (elems (PyList (map Fin xs)))"
    using assms(1) by (auto simp: list_ex_iff)
  have "inverse_mean (PyList (map Fin xs)) (Some (PyList (map Fin ws))) =
      mean (PyList (map Fin (map inverse xs))) (Some (PyList (map Fin ws)))"
    using inverse_mean_no_zero[OF nz] assms(1) by (simp add: map_fl_div_Fin del: map_map)
  also have "\<dots> =
      Inr (Fin (sum_list (map2 (\<lambda>x w. w * x) (map inverse xs) ws) / sum_list ws))"
    using assms by (intro mean_weighted_formula) auto
  also have "map2 (\<lambda>x w. w * x) (map inverse xs) ws = map2 (\<lambda>x w. w * (1 / x)) xs ws"
    by (simp add: zip_map1 inverse_eq_divide case_prod_unfold)
  finally show ?thesis .
qed

text \<open>
  Claim C6, as stated, fails: the sample \<open>[0.0, 1.0]\<close> is a list of Python floats, and
  \<open>1.0 / 0.0\<close> raises ZeroDivisionError; no infinity reaches a result.
\<close>

theorem inverse_mean_zero_in_list_raises:
  "is_zero (Fin 0) \<and> inverse_mean (PyList [Fin 0, Fin 1]) None = Inl ZeroDivisionError"
  by (simp add: inverse_mean_def py_truediv_def)

text \<open>
  Claim C6, amended. When no element is zero, \<open>inverse_mean(values, weights)\<close> is the
  mean, with the same weights, of the reciprocals; for finite numbers and weights that
  do not sum to zero it is the sum of the \<open>w_i / x_i\<close> divided by the sum of the \<open>w_i\<close>.
  There is no guard for a zero: in a list, whose elements are Python floats, it makes
  the call raise ZeroDivisionError, whatever the weights; in a numpy array the reciprocal
  of zero is an infinity, which enters the mean (so the result is an infinity or NaN).
\<close>

theorem inverse_mean_reciprocals:
  "(\<not> list_ex is_zero (elems d) \<longrightarrow>
      inverse_mean d w = mean (PyList (map (fl_div (Fin 1)) (elems d))) w)
   \<and> (0 \<notin> set xs \<and> length xs = length ws \<and> sum_list ws \<noteq> 0 \<longrightarrow>
        inverse_mean (PyList (map Fin xs)) (Some (PyList (map Fin ws))) =
          Inr (Fin (sum_list (map2 (\<lambda>x w. w * (1 / x)) xs ws) / sum_list ws)))
   \<and> (list_ex is_zero ys \<longrightarrow> inverse_mean (PyList ys) w = Inl ZeroDivisionError)
   \<and> inverse_mean (NdArray ys) w = mean (PyList (map (fl_div (Fin 1)) ys)) w
   \<and> fl_div (Fin 1) (Fin 0) = PInf
   \<and> inverse_mean (NdArray [Fin 0, Fin 1]) None = Inr PInf"
proof -
  have "inverse_mean (NdArray [Fin 0, Fin 1]) None = Inr PInf"
    by (simp add: inverse_mean_def mean_def np_average_def np_mean_def np_sum_def)
  then show ?thesis
    using inverse_mean_no_zero inverse_mean_formula inverse_mean_list_zero inverse_mean_array
    by simp
qed

theorem inverse_mean_reciprocals_witness:
  "inverse_mean (PyList [Fin 2, Fin 4]) (Some (PyList [Fin 1, Fin 3])) = Inr (Fin (5 / 16))
   \<and> inverse_mean (NdArray [Fin 2, Fin 4]) None =
       mean (PyList [Fin (1 / 2), Fin (1 / 4)]) None
   \<and> inverse_mean (PyList [Fin 2, Fin 0]) (Some (PyList [Fin 1, Fin 3])) =
       Inl ZeroDivisionError"
proof -
  note t = inverse_mean_reciprocals
    [of "NdArray [Fin 2, Fin 4]" None "[2, 4]" "[1, 3]" "[Fin 2, Fin 0]"]
  note u = inverse_mean_reciprocals
    [of "NdArray [Fin 2, Fin 4]" "Some (PyList [Fin 1, Fin 3])" "[2, 4]" "[1, 3]"
        "[Fin 2, Fin 0]"]
  have h1: "\<not> list_ex is_zero (elems (NdArray [Fin 2, Fin 4]))"
    by simp
  have h2: "0 \<notin> set [2, 4 :: real] \<and> length [2, 4 :: real] = length [1, 3 :: real]
      \<and> sum_list [1, 3 :: real] \<noteq> 0"
    by simp
  have h3: "list_ex is_zero [Fin 2, Fin 0]"
    by simp
  from t h1 have a: "inverse_mean (NdArray [Fin 2, Fin 4]) None =
      mean (PyList (map (fl_div (Fin 1)) (elems (NdArray [Fin 2, Fin 4])))) None"
    by blast
  from t h2 have b: "inverse_mean (PyList (map Fin [2, 4])) (Some (PyList (map Fin [1, 3]))) =
      Inr (Fin (sum_list (map2 (\<lambda>x w. w * (1 / x)) [2, 4] [1, 3]) / sum_list [1, 3]))"
    by blast
  from u h3 have c: "inverse_mean (PyList [Fin 2, Fin 0]) (Some (PyList [Fin 1, Fin 3])) =
      Inl ZeroDivisionError"
    by blast
  from a have a': "inverse_mean (NdArray [Fin 2, Fin 4]) None =
      mean (PyList [Fin (1 / 2), Fin (1 / 4)]) None"
    by simp
  from b have b': "inverse_mean (PyList [Fin 2, Fin 4]) (Some (PyList [Fin 1, Fin 3])) =
      Inr (Fin (5 / 16))"
    by simp
  from a' b' c show ?thesis
    by simp
qed


subsection \<open>std_dev\<close>

lemma map_abs_sq_dev_Fin:
  "map (\<lambda>x. fl_pow (fl_abs (fl_sub x (Fin m))) (Fin 2)) (map Fin xs) =
     map Fin (map (\<lambda>x. (x - m)\<^sup>2) xs)"
  by (induction xs) (auto simp: fl_sub_def fl_pow_Fin_2)

lemma map_sq_dev_Fin:
  "map (\<lambda>x. fl_pow (fl_sub x (Fin m)) (Fin 2)) (map Fin xs) =
     map Fin (map (\<lambda>x. (x - m)\<^sup>2) xs)"
  by (induction xs) (auto simp: fl_sub_def fl_pow_Fin_2)

lemma map_sq_Fin: "map (\<lambda>x. fl_pow x (Fin 2)) (map Fin ws) = map Fin (map (\<lambda>w. w\<^sup>2) ws)"
  by (induction ws) (auto simp: fl_pow_Fin_2)

lemma np_mean_Fin: "xs \<noteq> [] \<Longrightarrow> np_mean (map Fin xs) = Fin (sum_list xs / real (length xs))"
  by (simp add: np_mean_def np_sum_Fin)

lemma sum_list_sq_nonneg: "0 \<le> sum_list (map (\<lambda>x. (x - m)\<^sup>2) (xs :: real list))"
  by (rule sum_list_nonneg) auto

lemma std_dev_population:
  assumes "xs \<noteq> []"
  shows "std_dev (PyList (map Fin xs)) None =
     Inr (Fin (sqrt (sum_list (map (\<lambda>x. (x - sum_list xs / real (length xs))\<^sup>2) xs)
                       / real (length xs))))"
proof -
  let ?m = "sum_list xs / real (length xs)"
  have m: "np_mean (map Fin xs) = Fin ?m"
    using assms by (rule np_mean_Fin)
  have "np_mean (map Fin (map (\<lambda>x. (x - ?m)\<^sup>2) xs)) =
      Fin (sum_list (map (\<lambda>x. (x - ?m)\<^sup>2) xs) / real (length xs))"
    using assms np_mean_Fin[of "map (\<lambda>x. (x - ?m)\<^sup>2) xs"] by simp
  moreover have "0 \<le> sum_list (map (\<lambda>x. (x - ?m)\<^sup>2) xs) / real (length xs)"
    using sum_list_sq_nonneg[of ?m xs] by simp
  ultimately show ?thesis
    by (simp add: std_dev_def np_std_def m map_abs_sq_dev_Fin del: map_map)
qed

lemma std_dev_example:
  "std_dev (PyList [Fin 2, Fin 4, Fin 4, Fin 4, Fin 5, Fin 5, Fin 7, Fin 9]) None =
     Inr (Fin 2)"
  using std_dev_population[of "[2, 4, 4, 4, 5, 5, 7, 9]"] by simp

lemma weights_beta_Fin:
  "(sum_list ws)\<^sup>2 \<noteq> sum_list (map (\<lambda>w. w\<^sup>2) ws) \<Longrightarrow>
   weights_beta (map Fin ws) =
     Fin (sum_list ws / ((sum_list ws)\<^sup>2 - sum_list (map (\<lambda>w. w\<^sup>2) ws)))"
  by (simp add: weights_beta_def np_sum_Fin fl_pow_Fin_2 map_sq_Fin fl_sub_def del: map_map)

lemma std_dev_weighted:
  assumes "length xs = length ws" "sum_list ws \<noteq> 0"
    and "(sum_list ws)\<^sup>2 \<noteq> sum_list (map (\<lambda>w. w\<^sup>2) ws)"
  shows "std_dev (PyList (map Fin xs)) (Some (PyList (map Fin ws))) =
     Inr (fl_sqrt (Fin (sum_list ws / ((sum_list ws)\<^sup>2 - sum_list (map (\<lambda>w. w\<^sup>2) ws))
        * sum_list (map2 (\<lambda>x w. w * (x - sum_list (map2 (\<lambda>x w. w * x) xs ws)
                                           / sum_list ws)\<^sup>2) xs ws))))"
proof -
  let ?m = "sum_list (map2 (\<lambda>x w. w * x) xs ws) / sum_list ws"
  have m: "mean (PyList (map Fin xs)) (Some (PyList (map Fin ws))) = Inr (Fin ?m)"
    using assms(1,2) by (rule mean_weighted_formula)
  have "map2 (*) (map (\<lambda>x. (x - ?m)\<^sup>2) xs) ws = map2 (\<lambda>x w. w * (x - ?m)\<^sup>2) xs ws"
    by (simp add: zip_map1 case_prod_unfold mult.commute)
  then have d: "np_dot (map Fin (map (\<lambda>x. (x - ?m)\<^sup>2) xs)) (map Fin ws) =
      Inr (Fin (sum_list (map2 (\<lambda>x w. w * (x - ?m)\<^sup>2) xs ws)))"
    using assms(1) by (simp add: np_dot_def map2_fl_mul_Fin np_sum_Fin del: map_map)
  show ?thesis
    by (simp add: std_dev_def m weights_beta_Fin[OF assms(3)] map_sq_dev_Fin d del: map_map)
qed

lemma sum_list_sq_le:
  "(\<And>w. w \<in> set ws \<Longrightarrow> 0 \<le> w) \<Longrightarrow>
   sum_list (map (\<lambda>w. w\<^sup>2) ws) \<le> (sum_list (ws :: real list))\<^sup>2"
proof (induction ws)
  case Nil
  show ?case by simp
next
  case (Cons a ws)
  have s: "0 \<le> sum_list ws"
    using Cons.prems by (intro sum_list_nonneg) auto
  have a: "0 \<le> a"
    using Cons.prems by simp
  have "sum_list (map (\<lambda>w. w\<^sup>2) ws) \<le> (sum_list ws)\<^sup>2"
    using Cons by simp
  moreover have "(a + sum_list ws)\<^sup>2 = a\<^sup>2 + 2 * a * sum_list ws + (sum_list ws)\<^sup>2"
    by (simp add: power2_sum)
  moreover have "0 \<le> 2 * a * sum_list ws"
    using a s by simp
  ultimately show ?case by simp
qed

lemma std_dev_weighted_nonneg:
  assumes "length xs = length ws" "sum_list ws \<noteq> 0"
    and "(sum_list ws)\<^sup>2 \<noteq> sum_list (map (\<lambda>w. w\<^sup>2) ws)"
    and nn: "\<And>w. w \<in> set ws \<Longrightarrow> 0 \<le> w"
  shows "std_dev (PyList (map Fin xs)) (Some (PyList (map Fin ws))) =
     Inr (Fin (sqrt (sum_list ws / ((sum_list ws)\<^sup>2 - sum_list (map (\<lambda>w. w\<^sup>2) ws))
        * sum_list (map2 (\<lambda>x w. w * (x - sum_list (map2 (\<lambda>x w. w * x) xs ws)
                                           / sum_list ws)\<^sup>2) xs ws))))"
proof -
  let ?m = "sum_list (map2 (\<lambda>x w. w * x) xs ws) / sum_list ws"
  have "0 \<le> sum_list ws"
    using nn by (intro sum_list_nonneg) auto
  moreover have "0 \<le> (sum_list ws)\<^sup>2 - sum_list (map (\<lambda>w. w\<^sup>2) ws)"
    using sum_list_sq_le[of ws] nn by simp
  moreover have "0 \<le> sum_list (map2 (\<lambda>x w. w * (x - ?m)\<^sup>2) xs ws)"
    using nn by (intro sum_list_nonneg) (auto dest: set_zip_rightD)
  ultimately have "0 \<le> sum_list ws / ((sum_list ws)\<^sup>2 - sum_list (map (\<lambda>w. w\<^sup>2) ws))
        * sum_list (map2 (\<lambda>x w. w * (x - ?m)\<^sup>2) xs ws)"
    by simp
  then show ?thesis
    using std_dev_weighted[OF assms(1-3)] by simp
qed

lemma std_dev_elems:
  "elems d = elems d' \<Longrightarrow> map_option elems w = map_option elems w' \<Longrightarrow>
   std_dev d w = std_dev d' w'"
  by (cases w; cases w') (auto simp: std_dev_def mean_def Let_def split: sum.splits)

lemma std_dev_weighted_example:
  "std_dev (PyList [Fin 1, Fin 3]) (Some (PyList [Fin 1, Fin 1])) = Inr (Fin (sqrt 2))"
  using std_dev_weighted[of "[1, 3]" "[1, 1]"] by (simp add: power2_eq_square)

lemma std_dev_unweighted_example:
  "std_dev (PyList [Fin 1, Fin 3]) None = Inr (Fin 1)"
  using std_dev_population[of "[1, 3]"] by (simp add: power2_eq_square)

text \<open>
  Claim C4. Without weights \<open>std_dev\<close> is the population standard deviation: the
  square root of the sum of the squared deviations from the mean, divided by \<open>n\<close>;
  \<open>std_dev([2, 4, 4, 4, 5, 5, 7, 9])\<close> is 2. With (non-negative) weights it is
  \<open>sqrt(beta * sum of w_i * (x_i - m)^2)\<close>, where \<open>m\<close> is the weighted mean and
  \<open>beta = (sum of w) / ((sum of w)^2 - sum of w^2)\<close>. This is not the
  population-weighted deviation: \<open>[1, 3]\<close> with the weights \<open>[1, 1]\<close> gives
  \<open>sqrt(2)\<close>, and 1 without weights. (The sample and the weights are finite numbers,
  in a list or an array; the weights have the length of the sample, and neither their sum
  nor the denominator of \<open>beta\<close> is zero.)
\<close>

theorem std_dev_population_and_reliability_weighted:
  "(xs \<noteq> [] \<and> elems d = map Fin xs \<longrightarrow>
      std_dev d None =
        Inr (Fin (sqrt (sum_list (map (\<lambda>x. (x - sum_list xs / real (length xs))\<^sup>2) xs)
                         / real (length xs)))))
   \<and> std_dev (PyList [Fin 2, Fin 4, Fin 4, Fin 4, Fin 5, Fin 5, Fin 7, Fin 9]) None =
       Inr (Fin 2)
   \<and> (elems d = map Fin xs \<and> elems w = map Fin ws \<and> length xs = length ws
        \<and> sum_list ws \<noteq> 0 \<and> (sum_list ws)\<^sup>2 \<noteq> sum_list (map (\<lambda>w. w\<^sup>2) ws)
        \<and> (\<forall>v \<in> set ws. 0 \<le> v) \<longrightarrow>
        std_dev d (Some w) =
          Inr (Fin (sqrt (sum_list ws / ((sum_list ws)\<^sup>2 - sum_list (map (\<lambda>w. w\<^sup>2) ws))
             * sum_list (map2 (\<lambda>x w. w * (x - sum_list (map2 (\<lambda>x w. w * x) xs ws)
                                                / sum_list ws)\<^sup>2) xs ws)))))
   \<and> std_dev (PyList [Fin 1, Fin 3]) (Some (PyList [Fin 1, Fin 1])) = Inr (Fin (sqrt 2))
   \<and> std_dev (PyList [Fin 1, Fin 3]) None = Inr (Fin 1)"
proof -
  have a: "std_dev d None =
        Inr (Fin (sqrt (sum_list (map (\<lambda>x. (x - sum_list xs / real (length xs))\<^sup>2) xs)
                         / real (length xs))))"
    if "xs \<noteq> []" "elems d = map Fin xs"
    using std_dev_population[OF that(1)] std_dev_elems[of d "PyList (map Fin xs)" None None]
      that(2)
    by simp
  have b: "std_dev d (Some w) =
          Inr (Fin (sqrt (sum_list ws / ((sum_list ws)\<^sup>2 - sum_list (map (\<lambda>w. w\<^sup>2) ws))
             * sum_list (map2 (\<lambda>x w. w * (x - sum_list (map2 (\<lambda>x w. w * x) xs ws)
                                                / sum_list ws)\<^sup>2) xs ws))))"
    if "elems d = map Fin xs" "elems w = map Fin ws" "length xs = length ws"
      "sum_list ws \<noteq> 0" "(sum_list ws)\<^sup>2 \<noteq> sum_list (map (\<lambda>w. w\<^sup>2) ws)"
      "\<forall>v \<in> set ws. 0 \<le> v"
  proof -
    have "std_dev d (Some w) = std_dev (PyList (map Fin xs)) (Some (PyList (map Fin ws)))"
      using that(1,2) by (intro std_dev_elems) simp_all
    then show ?thesis
      using std_dev_weighted_nonneg[OF that(3,4,5)] that(6) by simp
  qed
  from a b std_dev_example std_dev_weighted_example std_dev_unweighted_example
  show ?thesis
    by blast
qed

theorem std_dev_population_and_reliability_weighted_witness:
  "std_dev (NdArray [Fin 1, Fin 2, Fin 3]) None = Inr (Fin (sqrt (2 / 3)))
   \<and> std_dev (NdArray [Fin 1, Fin 2, Fin 3]) (Some (PyList [Fin 1, Fin 2, Fin 1])) =
       Inr (Fin (sqrt (4 / 5)))"
proof -
  note t = std_dev_population_and_reliability_weighted
    [of "[1, 2, 3]" "NdArray [Fin 1, Fin 2, Fin 3]" "PyList [Fin 1, Fin 2, Fin 1]" "[1, 2, 1]"]
  have h1: "[1, 2, 3 :: real] \<noteq> [] \<and> elems (NdArray [Fin 1, Fin 2, Fin 3]) = map Fin [1, 2, 3]"
    by simp
  have h2: "elems (NdArray [Fin 1, Fin 2, Fin 3]) = map Fin [1, 2, 3]
      \<and> elems (PyList [Fin 1, Fin 2, Fin 1]) = map Fin [1, 2, 1]
      \<and> length [1, 2, 3 :: real] = length [1, 2, 1 :: real]
      \<and> sum_list [1, 2, 1 :: real] \<noteq> 0
      \<and> (sum_list [1, 2, 1 :: real])\<^sup>2 \<noteq> sum_list (map (\<lambda>w. w\<^sup>2) [1, 2, 1])
      \<and> (\<forall>v \<in> set [1, 2, 1 :: real]. 0 \<le> v)"
    by simp
  from t h1 have "std_dev (NdArray [Fin 1, Fin 2, Fin 3]) None =
      Inr (Fin (sqrt (sum_list (map (\<lambda>x. (x - sum_list [1, 2, 3] / real (length [1, 2, 3 :: real]))\<^sup>2)
                              [1, 2, 3]) / real (length [1, 2, 3 :: real]))))"
    by blast
  then have a: "std_dev (NdArray [Fin 1, Fin 2, Fin 3]) None = Inr (Fin (sqrt (2 / 3)))"
    by simp
  from t h2 have "std_dev (NdArray [Fin 1, Fin 2, Fin 3]) (Some (PyList [Fin 1, Fin 2, Fin 1])) =
      Inr (Fin (sqrt (sum_list [1, 2, 1]
            / ((sum_list [1, 2, 1])\<^sup>2 - sum_list (map (\<lambda>w. w\<^sup>2) [1, 2, 1]))
         * sum_list (map2 (\<lambda>x w. w * (x - sum_list (map2 (\<lambda>x w. w * x) [1, 2, 3] [1, 2, 1])
                                            / sum_list [1, 2, 1])\<^sup>2) [1, 2, 3] [1, 2, 1]))))"
    by blast
  then have b: "std_dev (NdArray [Fin 1, Fin 2, Fin 3]) (Some (PyList [Fin 1, Fin 2, Fin 1])) =
      Inr (Fin (sqrt (4 / 5)))"
    by simp
  from a b show ?thesis
    by simp
qed


subsection \<open>mode\<close>

lemma fl_lt_key: "a \<noteq> NaN \<Longrightarrow> b \<noteq> NaN \<Longrightarrow> fl_lt a b \<longleftrightarrow> fl_key a < fl_key b"
  by (cases a; cases b) auto

lemma fl_key_inj: "fl_key a = fl_key b \<Longrightarrow> a = b"
  by (cases a; cases b) auto

lemma fl_le_key: "a \<noteq> NaN \<Longrightarrow> b \<noteq> NaN \<Longrightarrow> fl_le a b \<longleftrightarrow> fl_key a \<le> fl_key b"
  by (cases a; cases b) (auto simp: fl_le_def fl_eq_def)

lemma is_nan_iff: "is_nan x \<longleftrightarrow> x = NaN"
  by (cases x) auto

lemma amax_step:
  "x \<noteq> NaN \<Longrightarrow> y \<noteq> NaN \<Longrightarrow>
   (if is_nan x then x else if is_nan y then y else if fl_lt x y then y else x) =
   (if fl_key x < fl_key y then y else x)"
  by (simp add: is_nan_iff fl_lt_key)

lemma amax_fold:
  assumes "x \<noteq> NaN" "NaN \<notin> set xs"
  shows "foldl (\<lambda>m y. if is_nan m then m else if is_nan y then y
                        else if fl_lt m y then y else m) x xs \<in> set (x # xs)
     \<and> (\<forall>v \<in> set (x # xs). fl_key v \<le> fl_key (foldl (\<lambda>m y. if is_nan m then m else if is_nan y then y
                        else if fl_lt m y then y else m) x xs))"
  using assms
proof (induction xs arbitrary: x)
  case Nil
  show ?case by simp
next
  case (Cons y ys)
  let ?f = "\<lambda>m y. if is_nan m then m else if is_nan y then y else if fl_lt m y then y else m"
  have y: "y \<noteq> NaN" and ys: "NaN \<notin> set ys"
    using Cons.prems by auto
  show ?case
  proof (cases "fl_key x < fl_key y")
    case True
    have s: "?f x y = y"
      using amax_step[OF Cons.prems(1) y] True by simp
    from Cons.IH[OF y ys] have "foldl ?f y ys \<in> set (y # ys)"
      and le: "\<forall>v \<in> set (y # ys). fl_key v \<le> fl_key (foldl ?f y ys)"
      by blast+
    moreover from le True have "fl_key x \<le> fl_key (foldl ?f y ys)"
      by force
    ultimately show ?thesis
      unfolding foldl_Cons s by simp
  next
    case False
    have s: "?f x y = x"
      using amax_step[OF Cons.prems(1) y] False by simp
    from Cons.IH[OF Cons.prems(1) ys] have "foldl ?f x ys \<in> set (x # ys)"
      and le: "\<forall>v \<in> set (x # ys). fl_key v \<le> fl_key (foldl ?f x ys)"
      by blast+
    moreover from le False have "fl_key y \<le> fl_key (foldl ?f x ys)"
      by force
    ultimately show ?thesis
      unfolding foldl_Cons s by auto
  qed
qed


lemma amin_step:
  "x \<noteq> NaN \<Longrightarrow> y \<noteq> NaN \<Longrightarrow>
   (if is_nan x then x else if is_nan y then y else if fl_lt y x then y else x) =
   (if fl_key y < fl_key x then y else x)"
  by (simp add: is_nan_iff fl_lt_key)

lemma amin_fold:
  assumes "x \<noteq> NaN" "NaN \<notin> set xs"
  shows "foldl (\<lambda>m y. if is_nan m then m else if is_nan y then y
                        else if fl_lt y m then y else m) x xs \<in> set (x # xs)
     \<and> (\<forall>v \<in> set (x # xs). fl_key (foldl (\<lambda>m y. if is_nan m then m else if is_nan y then y
                        else if fl_lt y m then y else m) x xs) \<le> fl_key v)"
  using assms
proof (induction xs arbitrary: x)
  case Nil
  show ?case by simp
next
  case (Cons y ys)
  let ?f = "\<lambda>m y. if is_nan m then m else if is_nan y then y else if fl_lt y m then y else m"
  have y: "y \<noteq> NaN" and ys: "NaN \<notin> set ys"
    using Cons.prems by auto
  show ?case
  proof (cases "fl_key y < fl_key x")
    case True
    have s: "?f x y = y"
      using amin_step[OF Cons.prems(1) y] True by simp
    from Cons.IH[OF y ys] have "foldl ?f y ys \<in> set (y # ys)"
      and le: "\<forall>v \<in> set (y # ys). fl_key (foldl ?f y ys) \<le> fl_key v"
      by blast+
    moreover from le True have "fl_key (foldl ?f y ys) \<le> fl_key x"
      by force
    ultimately show ?thesis
      unfolding foldl_Cons s by simp
  next
    case False
    have s: "?f x y = x"
      using amin_step[OF Cons.prems(1) y] False by simp
    from Cons.IH[OF Cons.prems(1) ys] have "foldl ?f x ys \<in> set (x # ys)"
      and le: "\<forall>v \<in> set (x # ys). fl_key (foldl ?f x ys) \<le> fl_key v"
      by blast+
    moreover from le False have "fl_key (foldl ?f x ys) \<le> fl_key y"
      by force
    ultimately show ?thesis
      unfolding foldl_Cons s by auto
  qed
qed

lemma np_amax_max:
  assumes "xs \<noteq> []" "NaN \<notin> set xs"
  obtains m where "np_amax xs = Inr m" "m \<in> set xs" "\<forall>v \<in> set xs. fl_le v m"
proof (cases xs)
  case Nil
  with assms show ?thesis by simp
next
  case (Cons x ys)
  let ?f = "\<lambda>m y. if is_nan m then m else if is_nan y then y else if fl_lt m y then y else m"
  from assms Cons have x: "x \<noteq> NaN" and ys: "NaN \<notin> set ys" by auto
  from amax_fold[OF x ys] have a: "foldl ?f x ys \<in> set xs"
    and b: "\<forall>v \<in> set xs. fl_key v \<le> fl_key (foldl ?f x ys)"
    unfolding Cons by blast+
  from a assms have n: "foldl ?f x ys \<noteq> NaN" by metis
  have "\<forall>v \<in> set xs. fl_le v (foldl ?f x ys)"
  proof
    fix v assume v: "v \<in> set xs"
    with assms have "v \<noteq> NaN" by metis
    with b v n show "fl_le v (foldl ?f x ys)" by (simp add: fl_le_key)
  qed
  with a show ?thesis
    using that[of "foldl ?f x ys"] Cons by simp
qed

lemma np_amin_min:
  assumes "xs \<noteq> []" "NaN \<notin> set xs"
  obtains m where "np_amin xs = Inr m" "m \<in> set xs" "\<forall>v \<in> set xs. fl_le m v"
proof (cases xs)
  case Nil
  with assms show ?thesis by simp
next
  case (Cons x ys)
  let ?f = "\<lambda>m y. if is_nan m then m else if is_nan y then y else if fl_lt y m then y else m"
  from assms Cons have x: "x \<noteq> NaN" and ys: "NaN \<notin> set ys" by auto
  from amin_fold[OF x ys] have a: "foldl ?f x ys \<in> set xs"
    and b: "\<forall>v \<in> set xs. fl_key (foldl ?f x ys) \<le> fl_key v"
    unfolding Cons by blast+
  from a assms have n: "foldl ?f x ys \<noteq> NaN" by metis
  have "\<forall>v \<in> set xs. fl_le (foldl ?f x ys) v"
  proof
    fix v assume v: "v \<in> set xs"
    with assms have "v \<noteq> NaN" by metis
    with b v n show "fl_le (foldl ?f x ys) v" by (simp add: fl_le_key)
  qed
  with a show ?thesis
    using that[of "foldl ?f x ys"] Cons by simp
qed


lemma fl_le_antisym: "a \<noteq> NaN \<Longrightarrow> b \<noteq> NaN \<Longrightarrow> fl_le a b \<Longrightarrow> fl_le b a \<Longrightarrow> a = b"
  by (simp add: fl_le_key fl_key_inj)

lemma np_isclose_refl: "a \<noteq> NaN \<Longrightarrow> np_isclose a a"
  by (cases a) (auto simp: np_isclose_def fl_eq_def)

lemma select_by_mask:
  "map fst (filter snd (zip xs (map P ws))) = map fst (filter (\<lambda>(x, v). P v) (zip xs ws))"
proof (induction xs arbitrary: ws)
  case Nil
  show ?case by simp
next
  case (Cons x xs)
  then show ?case by (cases ws) auto
qed

lemma mode_weighted:
  assumes ne: "elems w \<noteq> []" and wn: "NaN \<notin> set (elems w)"
    and len: "length (elems d) = length (elems w)" and dn: "NaN \<notin> set (elems d)"
    and wmax: "wmax \<in> set (elems w)" "\<forall>v \<in> set (elems w). fl_le v wmax"
  shows "\<exists>m. mode d (Some w) = Inr m
     \<and> m \<in> set (map fst (filter (\<lambda>(x, v). np_isclose v wmax) (zip (elems d) (elems w))))
     \<and> (\<forall>x \<in> set (map fst (filter (\<lambda>(x, v). np_isclose v wmax) (zip (elems d) (elems w)))).
           fl_le m x)"
proof -
  let ?sel = "map fst (filter (\<lambda>(x, v). np_isclose v wmax) (zip (elems d) (elems w)))"
  from np_amax_max[OF ne wn] obtain m' where m': "np_amax (elems w) = Inr m'"
    "m' \<in> set (elems w)" "\<forall>v \<in> set (elems w). fl_le v m'"
    by blast
  have nn: "wmax \<noteq> NaN" "m' \<noteq> NaN"
    using wn wmax(1) m'(2) by metis+
  have "m' = wmax"
    using fl_le_antisym[OF nn(2) nn(1)] wmax m' by blast
  with m' have amax: "np_amax (elems w) = Inr wmax"
    by simp
  from wmax(1) obtain i where i: "i < length (elems w)" "elems w ! i = wmax"
    by (auto simp: in_set_conv_nth)
  have "(elems d ! i, wmax) \<in> set (zip (elems d) (elems w))"
    using i len by (auto simp: set_zip)
  then have "elems d ! i \<in> set ?sel"
    using np_isclose_refl[OF nn(1)] by force
  then have sel_ne: "?sel \<noteq> []"
    by (metis empty_iff list.set(1))
  have "set ?sel \<subseteq> set (elems d)"
    by (auto dest: set_zip_leftD)
  with dn have sel_nn: "NaN \<notin> set ?sel"
    by blast
  from np_amin_min[OF sel_ne sel_nn] obtain m where m: "np_amin ?sel = Inr m"
    "m \<in> set ?sel" "\<forall>v \<in> set ?sel. fl_le m v"
    by blast
  have "mode d (Some w) = np_amin ?sel"
    using len by (simp add: mode_def amax Let_def select_by_mask)
  with m show ?thesis
    by auto
qed

lemma mode_step_gt:
  "k0 < score_count a s \<Longrightarrow> mode_step a (m0, k0) s = (s, score_count a s)"
  by (simp add: mode_step_def Let_def)

lemma mode_step_le: "\<not> k0 < score_count a s \<Longrightarrow> mode_step a (m0, k0) s = (m0, k0)"
  by (simp add: mode_step_def Let_def)

lemma mode_fold:
  "foldl (mode_step a) (m0, k0) ss = (m, k) \<Longrightarrow>
   ((\<forall>s \<in> set ss. score_count a s \<le> k0) \<and> m = m0 \<and> k = k0)
   \<or> (\<exists>pre post. ss = pre @ m # post \<and> k = score_count a m \<and> k0 < score_count a m
         \<and> (\<forall>s \<in> set pre. score_count a s < score_count a m)
         \<and> (\<forall>s \<in> set post. score_count a s \<le> score_count a m))"
proof (induction ss arbitrary: m0 k0)
  case Nil
  then show ?case by simp
next
  case (Cons s ss)
  let ?c = "score_count a"
  show ?case
  proof (cases "k0 < ?c s")
    case True
    have "foldl (mode_step a) (s, ?c s) ss = (m, k)"
      using Cons.prems True mode_step_gt[of k0 a s m0] by simp
    from Cons.IH[OF this] show ?thesis
    proof (elim disjE exE conjE)
      assume a: "\<forall>t \<in> set ss. ?c t \<le> ?c s" "m = s" "k = ?c s"
      have "s # ss = [] @ m # ss" using a(2) by simp
      moreover have "k = ?c m" using a by simp
      moreover have "k0 < ?c m" using a True by simp
      moreover have "\<forall>t \<in> set ([]::fl list). ?c t < ?c m" by simp
      moreover have "\<forall>t \<in> set ss. ?c t \<le> ?c m" using a by simp
      ultimately show ?thesis by blast
    next
      fix pre post
      assume p: "ss = pre @ m # post" "k = ?c m" "?c s < ?c m"
        "\<forall>s \<in> set pre. ?c s < ?c m" "\<forall>s \<in> set post. ?c s \<le> ?c m"
      have "s # ss = (s # pre) @ m # post" using p(1) by simp
      moreover have "k0 < ?c m" using True p(3) by simp
      moreover have "\<forall>t \<in> set (s # pre). ?c t < ?c m" using p(3,4) by simp
      ultimately show ?thesis using p(2,5) by blast
    qed
  next
    case False
    have "foldl (mode_step a) (m0, k0) ss = (m, k)"
      using Cons.prems False mode_step_le[of k0 a s m0] by simp
    from Cons.IH[OF this] show ?thesis
    proof (elim disjE exE conjE)
      assume a: "\<forall>t \<in> set ss. ?c t \<le> k0" "m = m0" "k = k0"
      have "\<forall>t \<in> set (s # ss). ?c t \<le> k0" using a(1) False by simp
      then show ?thesis using a(2,3) by blast
    next
      fix pre post
      assume p: "ss = pre @ m # post" "k = ?c m" "k0 < ?c m"
        "\<forall>s \<in> set pre. ?c s < ?c m" "\<forall>s \<in> set post. ?c s \<le> ?c m"
      have "s # ss = (s # pre) @ m # post" using p(1) by simp
      moreover have "\<forall>t \<in> set (s # pre). ?c t < ?c m" using p(3,4) False by simp
      ultimately show ?thesis using p(2,3,5) by blast
    qed
  qed
qed

lemma score_count_count_list: "s \<noteq> NaN \<Longrightarrow> score_count xs s = count_list xs s"
proof -
  assume "s \<noteq> NaN"
  then have "(\<lambda>x. fl_eq x s) = (\<lambda>x. s = x)"
    by (auto simp: fl_eq_def fun_eq_iff)
  then show ?thesis
    by (simp add: score_count_def count_list_eq_length_filter)
qed

lemma fl_key_le_imp_fl_le:
  "m \<noteq> NaN \<Longrightarrow> y \<noteq> NaN \<Longrightarrow> fl_key m \<le> fl_key y \<Longrightarrow> fl_le m y"
  by (cases m; cases y) (auto simp: fl_le_def fl_eq_def)

lemma scipy_mode_characterisation:
  assumes ne: "xs \<noteq> []" and nn: "NaN \<notin> set xs"
  shows "scipy_mode xs \<in> set xs
    \<and> (\<forall>y \<in> set xs. count_list xs y \<le> count_list xs (scipy_mode xs))
    \<and> (\<forall>y \<in> set xs. count_list xs y = count_list xs (scipy_mode xs) \<longrightarrow>
          fl_le (scipy_mode xs) y)"
proof -
  define ss where "ss = np_unique xs"
  let ?c = "score_count xs"
  obtain m k where mk: "foldl (mode_step xs) (Fin 0, 0) ss = (m, k)"
    by (cases "foldl (mode_step xs) (Fin 0, 0) ss")
  have sm: "scipy_mode xs = m"
    using mk unfolding scipy_mode_def ss_def by simp
  have set_ss: "set ss = set xs"
    by (simp add: ss_def np_unique_def)
  have c: "?c s = count_list xs s" if "s \<in> set xs" for s
  proof -
    from that nn have "s \<noteq> NaN" by auto
    then show ?thesis by (rule score_count_count_list)
  qed
  have pos: "0 < ?c s" if "s \<in> set xs" for s
  proof -
    have "count_list xs s \<noteq> 0"
      using that by (simp add: count_list_0_iff)
    then show ?thesis using c[OF that] by simp
  qed
  from ne obtain x where x: "x \<in> set xs"
    by (cases xs) auto
  have "\<not> ((\<forall>s \<in> set ss. ?c s \<le> 0) \<and> m = Fin 0 \<and> k = 0)"
    using pos[OF x] x set_ss by auto
  with mode_fold[OF mk] obtain pre post where p: "ss = pre @ m # post"
    "\<forall>s \<in> set pre. ?c s < ?c m" "\<forall>s \<in> set post. ?c s \<le> ?c m"
    by blast
  have m_in: "m \<in> set xs"
    using p(1) set_ss by auto
  have "sorted (map fl_key ss)"
    unfolding ss_def np_unique_def by (rule sorted_sort_key)
  then have sorted: "\<forall>y \<in> set post. fl_key m \<le> fl_key y"
    unfolding p(1) by (simp add: sorted_append)
  have split: "y = m \<or> y \<in> set pre \<or> y \<in> set post" if "y \<in> set xs" for y
    using that set_ss p(1) by auto
  have le: "count_list xs y \<le> count_list xs m" if "y \<in> set xs" for y
  proof -
    from split[OF that] p(2,3) have "?c y \<le> ?c m"
      by (auto simp: less_imp_le)
    then show ?thesis using c[OF that] c[OF m_in] by simp
  qed
  have tie: "fl_le m y" if "y \<in> set xs" "count_list xs y = count_list xs m" for y
  proof -
    have "?c y = ?c m"
      using c[OF that(1)] c[OF m_in] that(2) by simp
    with p(2) have "y \<notin> set pre"
      by auto
    with split[OF that(1)] have "y = m \<or> y \<in> set post"
      by blast
    with sorted have "fl_key m \<le> fl_key y"
      by auto
    moreover have "m \<noteq> NaN" "y \<noteq> NaN"
      using nn m_in that(1) by auto
    ultimately show ?thesis
      by (simp add: fl_key_le_imp_fl_le)
  qed
  from m_in le tie show ?thesis
    unfolding sm by blast
qed

lemma mode_unweighted_example: "mode (PyList [Fin 1, Fin 1, Fin 2, Fin 3]) None = Inr (Fin 1)"
  by (simp add: mode_def scipy_mode_def np_unique_def mode_step_def score_count_def fl_eq_def)

lemma mode_weighted_example:
  "mode (PyList [Fin 1, Fin 2, Fin 2, Fin 3]) (Some (PyList [Fin 1, Fin 5, Fin 5, Fin 1])) =
     Inr (Fin 2)"
  by (simp add: mode_def np_isclose_def)

lemma mode_tolerance_example:
  "mode (PyList [Fin 1, Fin 2]) (Some (PyList [Fin 1, Fin (1 + 1 / 10 ^ 6)])) = Inr (Fin 1)"
  by (simp add: mode_def np_isclose_def)

text \<open>
  Claim C5. Without weights, \<open>mode\<close> of a non-empty sample without NaN returns a value
  of the sample that no other value outnumbers, and the smallest of the values that
  occur as often (\<open>mode([1, 1, 2, 3])\<close> is 1). With weights (as many as values, none
  of them NaN) it takes the greatest weight, selects the positions whose weight
  \<open>np.isclose\<close> finds close to it, within a tolerance and not by equality, and returns
  the least value at these positions: \<open>[1, 2, 2, 3]\<close> with the weights
  \<open>[1, 5, 5, 1]\<close> gives 2, and \<open>[1, 2]\<close> with the weights \<open>[1, 1.000001]\<close> gives 1.
\<close>

theorem mode_most_frequent_smallest:
  "(elems d \<noteq> [] \<and> NaN \<notin> set (elems d) \<longrightarrow>
      (\<exists>m. mode d None = Inr m \<and> m \<in> set (elems d)
         \<and> (\<forall>y \<in> set (elems d). count_list (elems d) y \<le> count_list (elems d) m)
         \<and> (\<forall>y \<in> set (elems d).
               count_list (elems d) y = count_list (elems d) m \<longrightarrow> fl_le m y)))
   \<and> mode (PyList [Fin 1, Fin 1, Fin 2, Fin 3]) None = Inr (Fin 1)
   \<and> (elems w \<noteq> [] \<and> NaN \<notin> set (elems w) \<and> length (elems d) = length (elems w)
        \<and> NaN \<notin> set (elems d) \<and> wmax \<in> set (elems w)
        \<and> (\<forall>v \<in> set (elems w). fl_le v wmax) \<longrightarrow>
        (\<exists>m. mode d (Some w) = Inr m
           \<and> m \<in> set (map fst (filter (\<lambda>(x, v). np_isclose v wmax)
                                  (zip (elems d) (elems w))))
           \<and> (\<forall>x \<in> set (map fst (filter (\<lambda>(x, v). np_isclose v wmax)
                                       (zip (elems d) (elems w)))). fl_le m x)))
   \<and> mode (PyList [Fin 1, Fin 2, Fin 2, Fin 3]) (Some (PyList [Fin 1, Fin 5, Fin 5, Fin 1])) =
       Inr (Fin 2)
   \<and> mode (PyList [Fin 1, Fin 2]) (Some (PyList [Fin 1, Fin (1 + 1 / 10 ^ 6)])) = Inr (Fin 1)"
proof -
  have a: "\<exists>m. mode d None = Inr m \<and> m \<in> set (elems d)
         \<and> (\<forall>y \<in> set (elems d). count_list (elems d) y \<le> count_list (elems d) m)
         \<and> (\<forall>y \<in> set (elems d).
               count_list (elems d) y = count_list (elems d) m \<longrightarrow> fl_le m y)"
    if "elems d \<noteq> []" "NaN \<notin> set (elems d)"
  proof -
    have "mode d None = Inr (scipy_mode (elems d))"
      using that(1) by (simp add: mode_def)
    with scipy_mode_characterisation[OF that] show ?thesis
      by blast
  qed
  from a mode_weighted[of w d wmax] mode_unweighted_example mode_weighted_example
    mode_tolerance_example
  show ?thesis
    by blast
qed

theorem mode_most_frequent_smallest_witness:
  "(\<exists>m. mode (PyList [Fin 3, Fin 1, Fin 3, Fin 1]) None = Inr m
      \<and> (\<forall>y \<in> set [Fin 3, Fin 1, Fin 3, Fin 1].
            count_list [Fin 3, Fin 1, Fin 3, Fin 1] y = count_list [Fin 3, Fin 1, Fin 3, Fin 1] m
              \<longrightarrow> fl_le m y))
   \<and> (\<exists>m. mode (PyList [Fin 3, Fin 1, Fin 3, Fin 1])
            (Some (PyList [Fin 5, Fin 1, Fin 5, Fin 1])) = Inr m
         \<and> m \<in> set (map fst (filter (\<lambda>(x, v). np_isclose v (Fin 5))
              (zip [Fin 3, Fin 1, Fin 3, Fin 1] [Fin 5, Fin 1, Fin 5, Fin 1]))))"
proof -
  note t = mode_most_frequent_smallest
    [of "PyList [Fin 3, Fin 1, Fin 3, Fin 1]" "PyList [Fin 5, Fin 1, Fin 5, Fin 1]" "Fin 5"]
  have h1: "elems (PyList [Fin 3, Fin 1, Fin 3, Fin 1]) \<noteq> []
      \<and> NaN \<notin> set (elems (PyList [Fin 3, Fin 1, Fin 3, Fin 1]))"
    by simp
  have h2: "elems (PyList [Fin 5, Fin 1, Fin 5, Fin 1]) \<noteq> []
      \<and> NaN \<notin> set (elems (PyList [Fin 5, Fin 1, Fin 5, Fin 1]))
      \<and> length (elems (PyList [Fin 3, Fin 1, Fin 3, Fin 1])) =
          length (elems (PyList [Fin 5, Fin 1, Fin 5, Fin 1]))
      \<and> NaN \<notin> set (elems (PyList [Fin 3, Fin 1, Fin 3, Fin 1]))
      \<and> Fin 5 \<in> set (elems (PyList [Fin 5, Fin 1, Fin 5, Fin 1]))
      \<and> (\<forall>v \<in> set (elems (PyList [Fin 5, Fin 1, Fin 5, Fin 1])). fl_le v (Fin 5))"
    by (simp add: fl_le_def fl_eq_def)
  from t h1 have a: "\<exists>m. mode (PyList [Fin 3, Fin 1, Fin 3, Fin 1]) None = Inr m
      \<and> m \<in> set (elems (PyList [Fin 3, Fin 1, Fin 3, Fin 1]))
      \<and> (\<forall>y \<in> set (elems (PyList [Fin 3, Fin 1, Fin 3, Fin 1])).
            count_list (elems (PyList [Fin 3, Fin 1, Fin 3, Fin 1])) y
              \<le> count_list (elems (PyList [Fin 3, Fin 1, Fin 3, Fin 1])) m)
      \<and> (\<forall>y \<in> set (elems (PyList [Fin 3, Fin 1, Fin 3, Fin 1])).
            count_list (elems (PyList [Fin 3, Fin 1, Fin 3, Fin 1])) y =
              count_list (elems (PyList [Fin 3, Fin 1, Fin 3, Fin 1])) m \<longrightarrow> fl_le m y)"
    by blast
  from t h2 have b: "\<exists>m. mode (PyList [Fin 3, Fin 1, Fin 3, Fin 1])
            (Some (PyList [Fin 5, Fin 1, Fin 5, Fin 1])) = Inr m
      \<and> m \<in> set (map fst (filter (\<lambda>(x, v). np_isclose v (Fin 5))
           (zip (elems (PyList [Fin 3, Fin 1, Fin 3, Fin 1]))
                (elems (PyList [Fin 5, Fin 1, Fin 5, Fin 1])))))
      \<and> (\<forall>x \<in> set (map fst (filter (\<lambda>(x, v). np_isclose v (Fin 5))
           (zip (elems (PyList [Fin 3, Fin 1, Fin 3, Fin 1]))
                (elems (PyList [Fin 5, Fin 1, Fin 5, Fin 1]))))). fl_le m x)"
    by blast
  from a obtain m where m: "mode (PyList [Fin 3, Fin 1, Fin 3, Fin 1]) None = Inr m"
    "\<forall>y \<in> set (elems (PyList [Fin 3, Fin 1, Fin 3, Fin 1])).
            count_list (elems (PyList [Fin 3, Fin 1, Fin 3, Fin 1])) y =
              count_list (elems (PyList [Fin 3, Fin 1, Fin 3, Fin 1])) m \<longrightarrow> fl_le m y"
    by blast
  from b obtain m' where m': "mode (PyList [Fin 3, Fin 1, Fin 3, Fin 1])
            (Some (PyList [Fin 5, Fin 1, Fin 5, Fin 1])) = Inr m'"
    "m' \<in> set (map fst (filter (\<lambda>(x, v). np_isclose v (Fin 5))
           (zip (elems (PyList [Fin 3, Fin 1, Fin 3, Fin 1]))
                (elems (PyList [Fin 5, Fin 1, Fin 5, Fin 1])))))"
    by blast
  have e: "elems (PyList [Fin 3, Fin 1, Fin 3, Fin 1]) = [Fin 3, Fin 1, Fin 3, Fin 1]"
    "elems (PyList [Fin 5, Fin 1, Fin 5, Fin 1]) = [Fin 5, Fin 1, Fin 5, Fin 1]"
    by simp_all
  from m m' show ?thesis
    unfolding e by blast
qed


subsection \<open>The kernels need a matrix\<close>

lemma kernel_diff_seq:
  "kernel_diff (KSeq a) (KSeq b) = Inl TypeError
   \<or> kernel_diff (KSeq a) (KSeq b) = Inl ValueError
   \<or> (\<exists>v. kernel_diff (KSeq a) (KSeq b) = Inr (KSeq (NdArray v)))"
  by (cases a; cases b) (auto simp: np_broadcast_def)

lemma laplacian_kernel_seq:
  "laplacian_kernel (KSeq a) (KSeq b) sigma \<in> {Inl TypeError, Inl ValueError, Inl AttributeError}"
  using kernel_diff_seq[of a b] by (auto simp: laplacian_kernel_def)

lemma gaussian_kernel_seq:
  "gaussian_kernel (KSeq a) (KSeq b) sigma \<in> {Inl TypeError, Inl ValueError, Inl AttributeError}"
  using kernel_diff_seq[of a b] by (auto simp: gaussian_kernel_def)

lemma concat_rows:
  "concat (map (\<lambda>i. map (\<lambda>j. g (i * c + j)) [0 ..< c]) [0 ..< r]) = map g [0 ..< r * c]"
proof (induction r)
  case 0
  show ?case by simp
next
  case (Suc r)
  have "[r * c ..< c + r * c] = map (\<lambda>i. i + r * c) [0 ..< c]"
    by (rule map_add_upt[symmetric])
  then have "map g [r * c ..< c + r * c] = map (\<lambda>j. g (j + r * c)) [0 ..< c]"
    by (simp only: map_map o_def)
  also have "\<dots> = map (\<lambda>j. g (r * c + j)) [0 ..< c]"
    by (simp only: add.commute)
  finally have row: "map (\<lambda>j. g (r * c + j)) [0 ..< c] = map g [r * c ..< c + r * c]"
    by (rule sym)
  have "[0 ..< Suc r * c] = [0 ..< r * c] @ [r * c ..< c + r * c]"
    using upt_add_eq_append[of 0 "r * c" c] by (simp only: mult_Suc add.commute le0 add_0)
  then have "map g [0 ..< Suc r * c] = map g [0 ..< r * c] @ map g [r * c ..< c + r * c]"
    by (simp only: map_append)
  moreover have "concat (map (\<lambda>i. map (\<lambda>j. g (i * c + j)) [0 ..< c]) [0 ..< Suc r]) =
      concat (map (\<lambda>i. map (\<lambda>j. g (i * c + j)) [0 ..< c]) [0 ..< r])
        @ map (\<lambda>j. g (r * c + j)) [0 ..< c]"
    by simp
  ultimately show ?case
    by (simp only: Suc.IH row)
qed

lemma map_nth_map2:
  "length xs = n \<Longrightarrow> length ys = n \<Longrightarrow> map (\<lambda>k. f (xs ! k) (ys ! k)) [0 ..< n] = map2 f xs ys"
  by (rule nth_equalityI) auto

lemma np_broadcast2_same_shape:
  assumes "length xs = r * c" "length ys = r * c"
  shows "np_broadcast2 f (r, c, xs) (r, c, ys) = Inr (r, c, map2 f xs ys)"
proof -
  have rows: "(if r = 1 then 0 else i) = i" if "i < r" for i
    using that by auto
  have cols: "(if c = 1 then 0 else j) = j" if "j < c" for j
    using that by auto
  have "concat (map (\<lambda>i. map (\<lambda>j.
            f (xs ! ((if r = 1 then 0 else i) * c + (if c = 1 then 0 else j)))
              (ys ! ((if r = 1 then 0 else i) * c + (if c = 1 then 0 else j))))
          [0 ..< c]) [0 ..< r])
      = concat (map (\<lambda>i. map (\<lambda>j. f (xs ! (i * c + j)) (ys ! (i * c + j))) [0 ..< c]) [0 ..< r])"
    by (intro arg_cong[where f=concat] map_cong refl) auto
  also have "\<dots> = map (\<lambda>k. f (xs ! k) (ys ! k)) [0 ..< r * c]"
    by (rule concat_rows)
  also have "\<dots> = map2 f xs ys"
    using assms by (rule map_nth_map2)
  finally show ?thesis
    by (simp add: np_broadcast2_def)
qed


lemma kernel_diff_matrix:
  assumes "length xs = r * c" "length ys = r * c"
  shows "kernel_diff (KMatrix r c xs) (KMatrix r c ys) = Inr (KMatrix r c (map2 fl_sub xs ys))"
  using np_broadcast2_same_shape[OF assms, of fl_sub] by simp

lemma map2_fl_sub_Fin: "map2 fl_sub (map Fin xs) (map Fin ys) = map Fin (map2 (-) xs ys)"
  by (induction xs arbitrary: ys) (auto split: list.splits simp: zip_Cons1 fl_sub_def)

lemma norm1_Fin: "norm1 (map Fin ds) = Fin (sum_list (map abs ds))"
proof -
  have "map fl_abs (map Fin ds) = map Fin (map abs ds)"
    by (induction ds) auto
  then show ?thesis
    by (simp only: norm1_def np_sum_Fin)
qed

lemma norm2_sq_Fin: "fl_pow (norm2 (map Fin ds)) (Fin 2) = Fin (sum_list (map (\<lambda>d. d\<^sup>2) ds))"
proof -
  have "map (\<lambda>x. fl_pow (fl_abs x) (Fin 2)) (map Fin ds) = map Fin (map (\<lambda>d. d\<^sup>2) ds)"
    by (induction ds) (auto simp: fl_pow_Fin_2)
  then have "norm2 (map Fin ds) = fl_sqrt (Fin (sum_list (map (\<lambda>d. d\<^sup>2) ds)))"
    by (simp only: norm2_def np_sum_Fin)
  moreover have "0 \<le> sum_list (map (\<lambda>d. d\<^sup>2) ds)"
    by (rule sum_list_nonneg) auto
  ultimately show ?thesis
    by (simp add: fl_pow_Fin_2)
qed

lemma laplacian_kernel_matrix:
  assumes "length xs = r * c" "length ys = r * c" "s \<noteq> 0"
  shows "laplacian_kernel (KMatrix r c (map Fin xs)) (KMatrix r c (map Fin ys)) (Fin s) =
     Inr (Fin (exp (- sum_list (map abs (map2 (-) xs ys)) / s)))"
proof -
  have "kernel_diff (KMatrix r c (map Fin xs)) (KMatrix r c (map Fin ys)) =
      Inr (KMatrix r c (map Fin (map2 (-) xs ys)))"
    using kernel_diff_matrix[of "map Fin xs" r c "map Fin ys"] assms(1,2)
    by (simp only: map2_fl_sub_Fin length_map)
  then show ?thesis
    using assms(3) by (simp add: laplacian_kernel_def norm1_Fin del: map_map)
qed

lemma gaussian_kernel_matrix:
  assumes "length xs = r * c" "length ys = r * c" "s \<noteq> 0"
  shows "gaussian_kernel (KMatrix r c (map Fin xs)) (KMatrix r c (map Fin ys)) (Fin s) =
     Inr (Fin (exp (- sum_list (map (\<lambda>d. d\<^sup>2) (map2 (-) xs ys)) / 2 / s\<^sup>2)))"
proof -
  have "kernel_diff (KMatrix r c (map Fin xs)) (KMatrix r c (map Fin ys)) =
      Inr (KMatrix r c (map Fin (map2 (-) xs ys)))"
    using kernel_diff_matrix[of "map Fin xs" r c "map Fin ys"] assms(1,2)
    by (simp only: map2_fl_sub_Fin length_map)
  then show ?thesis
    using assms(3) by (simp add: gaussian_kernel_def norm2_sq_Fin fl_pow_Fin_2 del: map_map)
qed

lemma kernels_of_lists:
  "laplacian_kernel (KSeq (PyList xs)) (KSeq (PyList ys)) sigma = Inl TypeError
   \<and> gaussian_kernel (KSeq (PyList xs)) (KSeq (PyList ys)) sigma = Inl TypeError"
  by (simp add: laplacian_kernel_def gaussian_kernel_def)

lemma kernels_of_arrays:
  "length xs = length ys \<Longrightarrow>
   laplacian_kernel (KSeq (NdArray xs)) (KSeq (NdArray ys)) sigma = Inl AttributeError
   \<and> gaussian_kernel (KSeq (NdArray xs)) (KSeq (NdArray ys)) sigma = Inl AttributeError"
  by (simp add: laplacian_kernel_def gaussian_kernel_def np_broadcast_def)

text \<open>
  Claim C10. With two arguments that are lists or arrays of floats, both kernels raise
  for every \<open>SIGMA\<close>: two lists cannot be subtracted (TypeError), arrays that do not
  broadcast raise ValueError, and the difference of arrays has no attribute \<open>A1\<close>
  (AttributeError; this is the case of two arrays of one length). For two matrices of
  one shape, with finite entries and a finite non-zero \<open>SIGMA\<close>, the kernels return
  \<open>exp(- sum |a_i - b_i| / SIGMA)\<close> and \<open>exp(- sum (a_i - b_i)^2 / 2 / SIGMA^2)\<close>.
\<close>

theorem kernels_only_for_matrices:
  "laplacian_kernel (KSeq a) (KSeq b) sigma
     \<in> {Inl TypeError, Inl ValueError, Inl AttributeError}
   \<and> gaussian_kernel (KSeq a) (KSeq b) sigma
     \<in> {Inl TypeError, Inl ValueError, Inl AttributeError}
   \<and> laplacian_kernel (KSeq (PyList us)) (KSeq (PyList vs)) sigma = Inl TypeError
   \<and> gaussian_kernel (KSeq (PyList us)) (KSeq (PyList vs)) sigma = Inl TypeError
   \<and> (length us = length vs \<longrightarrow>
        laplacian_kernel (KSeq (NdArray us)) (KSeq (NdArray vs)) sigma = Inl AttributeError
        \<and> gaussian_kernel (KSeq (NdArray us)) (KSeq (NdArray vs)) sigma = Inl AttributeError)
   \<and> (length xs = r * c \<and> length ys = r * c \<and> s \<noteq> 0 \<longrightarrow>
        laplacian_kernel (KMatrix r c (map Fin xs)) (KMatrix r c (map Fin ys)) (Fin s) =
          Inr (Fin (exp (- sum_list (map abs (map2 (-) xs ys)) / s)))
        \<and> gaussian_kernel (KMatrix r c (map Fin xs)) (KMatrix r c (map Fin ys)) (Fin s) =
          Inr (Fin (exp (- sum_list (map (\<lambda>d. d\<^sup>2) (map2 (-) xs ys)) / 2 / s\<^sup>2))))"
  using laplacian_kernel_seq[of a b sigma] gaussian_kernel_seq[of a b sigma]
    kernels_of_lists[of us vs sigma] kernels_of_arrays[of us vs sigma]
    laplacian_kernel_matrix[of xs r c ys s] gaussian_kernel_matrix[of xs r c ys s]
  by blast

theorem kernels_only_for_matrices_witness:
  "laplacian_kernel (KSeq (NdArray [Fin 1, Fin 2])) (KSeq (NdArray [Fin 0, Fin 0])) (Fin 1) =
     Inl AttributeError
   \<and> gaussian_kernel (KSeq (NdArray [Fin 1, Fin 2])) (KSeq (NdArray [Fin 0, Fin 0])) (Fin 1) =
     Inl AttributeError
   \<and> laplacian_kernel (KMatrix 1 2 [Fin 1, Fin 2]) (KMatrix 1 2 [Fin 0, Fin 0]) (Fin 1) =
     Inr (Fin (exp (- 3)))
   \<and> gaussian_kernel (KMatrix 1 2 [Fin 1, Fin 2]) (KMatrix 1 2 [Fin 0, Fin 0]) (Fin 1) =
     Inr (Fin (exp (- (5 / 2))))"
proof -
  note t = kernels_only_for_matrices
    [of "NdArray [Fin 1, Fin 2]" "NdArray [Fin 0, Fin 0]" "Fin 1" "[Fin 1, Fin 2]"
        "[Fin 0, Fin 0]" "[1, 2]" 1 2 "[0, 0]" 1]
  have h1: "length [Fin 1, Fin 2] = length [Fin 0, Fin 0]"
    by simp
  have h2: "length [1, 2 :: real] = 1 * 2 \<and> length [0, 0 :: real] = 1 * 2 \<and> (1 :: real) \<noteq> 0"
    by simp
  from t h1 have a:
    "laplacian_kernel (KSeq (NdArray [Fin 1, Fin 2])) (KSeq (NdArray [Fin 0, Fin 0])) (Fin 1) =
       Inl AttributeError
     \<and> gaussian_kernel (KSeq (NdArray [Fin 1, Fin 2])) (KSeq (NdArray [Fin 0, Fin 0])) (Fin 1) =
       Inl AttributeError"
    by blast
  from t h2 have
    "laplacian_kernel (KMatrix 1 2 (map Fin [1, 2])) (KMatrix 1 2 (map Fin [0, 0])) (Fin 1) =
       Inr (Fin (exp (- sum_list (map abs (map2 (-) [1, 2] [0, 0])) / 1)))
     \<and> gaussian_kernel (KMatrix 1 2 (map Fin [1, 2])) (KMatrix 1 2 (map Fin [0, 0])) (Fin 1) =
       Inr (Fin (exp (- sum_list (map (\<lambda>d. d\<^sup>2) (map2 (-) [1, 2] [0, 0])) / 2 / 1\<^sup>2)))"
    by blast
  then have b:
    "laplacian_kernel (KMatrix 1 2 [Fin 1, Fin 2]) (KMatrix 1 2 [Fin 0, Fin 0]) (Fin 1) =
       Inr (Fin (exp (- 3)))
     \<and> gaussian_kernel (KMatrix 1 2 [Fin 1, Fin 2]) (KMatrix 1 2 [Fin 0, Fin 0]) (Fin 1) =
       Inr (Fin (exp (- (5 / 2))))"
    by simp
  from a b show ?thesis
    by blast
qed


subsection \<open>calc_stat without weights\<close>

lemmas call_defs = calc_stat_def call_method_def PropertyStats_attrs_def PropertyStats_methods_def

lemma calc_stat_weight_functions:
  "calc_stat d ''minimum'' w = map_sum id Num (minimum d w)"
  "calc_stat d ''maximum'' w = map_sum id Num (maximum d w)"
  "calc_stat d ''range'' w = map_sum id Num (range_stat d w)"
  "calc_stat d ''mean'' w = map_sum id Num (mean d w)"
  "calc_stat d ''inverse_mean'' w = map_sum id Num (inverse_mean d w)"
  "calc_stat d ''avg_dev'' w = map_sum id Num (avg_dev d w)"
  "calc_stat d ''std_dev'' w = map_sum id Num (std_dev d w)"
  "calc_stat d ''geom_std_dev'' w = map_sum id Num (geom_std_dev d w)"
  "calc_stat d ''mode'' w = map_sum id Num (mode d w)"
  "calc_stat d ''holder_mean'' w = map_sum id Num (holder_mean d w (PNum (Fin 1)))"
  by (simp_all add: call_defs)

lemma py_min_Inr: "xs \<noteq> [] \<Longrightarrow> \<exists>v. py_min xs = Inr v"
  by (cases xs) auto

lemma py_max_Inr: "xs \<noteq> [] \<Longrightarrow> \<exists>v. py_max xs = Inr v"
  by (cases xs) auto

lemma unweighted_returns:
  assumes "elems d \<noteq> []"
  shows "\<exists>v. minimum d None = Inr v" "\<exists>v. maximum d None = Inr v"
    "\<exists>v. range_stat d None = Inr v" "\<exists>v. mean d None = Inr v"
    "\<exists>v. avg_dev d None = Inr v" "\<exists>v. std_dev d None = Inr v"
    "\<exists>v. geom_std_dev d None = Inr v" "\<exists>v. mode d None = Inr v"
    "\<exists>v. holder_mean d None (PNum (Fin 1)) = Inr v"
proof -
  from assms obtain lo hi where lh: "py_min (elems d) = Inr lo" "py_max (elems d) = Inr hi"
    using py_min_Inr py_max_Inr by blast
  show "\<exists>v. minimum d None = Inr v"
    using lh by (simp add: minimum_is_py_min)
  show "\<exists>v. maximum d None = Inr v"
    using lh by (simp add: maximum_is_py_max)
  show "\<exists>v. range_stat d None = Inr v"
    using lh by (simp add: range_stat_def not_py_in_fresh_NaN)
  show "\<exists>v. mean d None = Inr v"
    by (simp add: mean_def np_average_def)
  show "\<exists>v. avg_dev d None = Inr v"
    by (simp add: avg_dev_def mean_def np_average_def)
  show "\<exists>v. std_dev d None = Inr v"
    by (simp add: std_dev_def)
  show "\<exists>v. geom_std_dev d None = Inr v"
    by (simp add: geom_std_dev_def holder_mean_def fl_eq_def np_broadcast_def np_dot_def Let_def)
  show "\<exists>v. mode d None = Inr v"
    using assms by (simp add: mode_def)
  show "\<exists>v. holder_mean d None (PNum (Fin 1)) = Inr v"
    by (simp add: holder_mean_def fl_eq_def)
qed

lemma inverse_mean_returns:
  "\<not> list_ex is_zero (elems d) \<Longrightarrow> \<exists>v. inverse_mean d None = Inr v"
  by (simp add: inverse_mean_no_zero mean_def np_average_def)

lemma calc_stat_sorted: "calc_stat d ''sorted'' w = Inl TypeError"
  by (simp add: call_defs)

lemma n_numerical_modes_None: "\<exists>e. n_numerical_modes argsort d PyNone dl = Inl e"
  by (auto simp: n_numerical_modes_def Let_def split: sum.splits)

lemma calc_stat_n_numerical_modes: "\<exists>e. calc_stat d ''n_numerical_modes'' None = Inl e"
  using n_numerical_modes_None[of np_argsort d "PyFloat (Fin (1 / 10))"]
  by (auto simp: call_defs as_pyval_def)

text \<open>
  Claim C3, as stated, fails: \<open>sorted\<close> has one parameter and
  \<open>n_numerical_modes\<close> takes \<open>n\<close> where the others take the weights, so with these
  names \<open>calc_stat\<close> raises TypeError.
\<close>

theorem calc_stat_sorted_and_n_numerical_modes_raise:
  "calc_stat (PyList [Fin 1, Fin 2, Fin 3]) ''sorted'' None = Inl TypeError
   \<and> calc_stat (PyList [Fin 1, Fin 2, Fin 3]) ''n_numerical_modes'' None = Inl TypeError"
  by (simp add: call_defs as_pyval_def n_numerical_modes_def py_set_len_def np_arange_def
      Let_def)

subsection \<open>The unweighted formulas\<close>

lemma foldl_min_Fin:
  "foldl (\<lambda>m y. if fl_lt y m then y else m) (Fin a) (map Fin xs) = Fin (foldl min a xs)"
  by (induction xs arbitrary: a) (auto simp: min_def not_less intro!: arg_cong[where f="\<lambda>b. Fin (foldl min b _)"])

lemma foldl_max_Fin:
  "foldl (\<lambda>m y. if fl_lt m y then y else m) (Fin a) (map Fin xs) = Fin (foldl max a xs)"
  by (induction xs arbitrary: a) (auto simp: max_def not_less intro!: arg_cong[where f="\<lambda>b. Fin (foldl max b _)"])

lemma foldl_min_Min: "foldl min (a::real) xs = Min (set (a # xs))"
proof -
  have "foldl min a xs = fold min xs a"
    by (simp add: foldl_conv_fold min.commute)
  then show ?thesis
    by (simp only: Min.set_eq_fold)
qed

lemma foldl_max_Max: "foldl max (a::real) xs = Max (set (a # xs))"
proof -
  have "foldl max a xs = fold max xs a"
    by (simp add: foldl_conv_fold max.commute)
  then show ?thesis
    by (simp only: Max.set_eq_fold)
qed

lemma py_min_Fin: "xs \<noteq> [] \<Longrightarrow> py_min (map Fin xs) = Inr (Fin (Min (set xs)))"
  by (cases xs) (simp_all add: foldl_min_Fin foldl_min_Min del: set_simps)

lemma py_max_Fin: "xs \<noteq> [] \<Longrightarrow> py_max (map Fin xs) = Inr (Fin (Max (set xs)))"
  by (cases xs) (simp_all add: foldl_max_Fin foldl_max_Max del: set_simps)


lemma minimum_finite:
  "xs \<noteq> [] \<Longrightarrow> elems d = map Fin xs \<Longrightarrow> minimum d None = Inr (Fin (Min (set xs)))"
  by (simp add: minimum_is_py_min py_min_Fin)

lemma maximum_finite:
  "xs \<noteq> [] \<Longrightarrow> elems d = map Fin xs \<Longrightarrow> maximum d None = Inr (Fin (Max (set xs)))"
  by (simp add: maximum_is_py_max py_max_Fin)

lemma range_finite:
  "xs \<noteq> [] \<Longrightarrow> elems d = map Fin xs \<Longrightarrow>
   range_stat d None = Inr (Fin (Max (set xs) - Min (set xs)))"
  by (simp add: range_stat_def not_py_in_fresh_NaN py_min_Fin py_max_Fin fl_sub_def)

lemma mean_finite:
  "xs \<noteq> [] \<Longrightarrow> elems d = map Fin xs \<Longrightarrow>
   mean d None = Inr (Fin (sum_list xs / real (length xs)))"
  by (simp add: mean_def np_average_def np_mean_Fin)

lemma map_abs_dev_Fin:
  "map (\<lambda>x. fl_abs (fl_sub x (Fin m))) (map Fin xs) = map Fin (map (\<lambda>x. \<bar>x - m\<bar>) xs)"
  by (induction xs) (auto simp: fl_sub_def)

lemma avg_dev_finite:
  assumes "xs \<noteq> []" "elems d = map Fin xs"
  shows "avg_dev d None =
     Inr (Fin (sum_list (map (\<lambda>x. \<bar>x - sum_list xs / real (length xs)\<bar>) xs)
               / real (length xs)))"
proof -
  let ?m = "sum_list xs / real (length xs)"
  have "np_mean (map Fin (map (\<lambda>x. \<bar>x - ?m\<bar>) xs)) =
      Fin (sum_list (map (\<lambda>x. \<bar>x - ?m\<bar>) xs) / real (length xs))"
    using assms(1) np_mean_Fin[of "map (\<lambda>x. \<bar>x - ?m\<bar>) xs"] by simp
  then show ?thesis
    using mean_finite[OF assms]
    by (simp add: avg_dev_def assms(2) np_average_def map_abs_dev_Fin del: map_map)
qed

lemma std_dev_finite:
  assumes "xs \<noteq> []" "elems d = map Fin xs"
  shows "std_dev d None =
     Inr (Fin (sqrt (sum_list (map (\<lambda>x. (x - sum_list xs / real (length xs))\<^sup>2) xs)
                       / real (length xs))))"
  using std_dev_population[OF assms(1)] std_dev_elems[of d "PyList (map Fin xs)" None None]
    assms(2)
  by simp

lemma holder_mean_finite:
  assumes "xs \<noteq> []" "elems d = map Fin xs"
  shows "holder_mean d None (PNum (Fin 1)) = Inr (Fin (sum_list xs / real (length xs)))"
  using assms by (simp add: holder_mean_def fl_eq_def np_mean_Fin)

lemma inverse_mean_finite:
  assumes "xs \<noteq> []" "elems d = map Fin xs" "0 \<notin> set xs"
  shows "inverse_mean d None =
     Inr (Fin (sum_list (map (\<lambda>x. 1 / x) xs) / real (length xs)))"
proof -
  have nz: "\<not> list_ex is_zero (elems d)"
    using assms(2,3) by (auto simp: list_ex_iff)
  have "map (fl_div (Fin 1)) (map Fin xs) = map Fin (map (\<lambda>x. 1 / x) xs)"
    using assms(3) by (induction xs) auto
  moreover have "np_mean (map Fin (map (\<lambda>x. 1 / x) xs)) =
      Fin (sum_list (map (\<lambda>x. 1 / x) xs) / real (length xs))"
    using assms(1) np_mean_Fin[of "map (\<lambda>x. 1 / x) xs"] by simp
  ultimately show ?thesis
    by (simp add: inverse_mean_no_zero[OF nz] assms(2) mean_def np_average_def del: map_map)
qed

lemma mode_finite:
  assumes "xs \<noteq> []" "elems d = map Fin xs"
  shows "\<exists>m. mode d None = Inr m \<and> m \<in> set (elems d)
     \<and> (\<forall>y \<in> set (elems d). count_list (elems d) y \<le> count_list (elems d) m)
     \<and> (\<forall>y \<in> set (elems d).
           count_list (elems d) y = count_list (elems d) m \<longrightarrow> fl_le m y)"
proof -
  have ne: "elems d \<noteq> []" and nn: "NaN \<notin> set (elems d)"
    using assms by auto
  have "mode d None = Inr (scipy_mode (elems d))"
    using ne by (simp add: mode_def)
  with scipy_mode_characterisation[OF ne nn] show ?thesis
    by blast
qed

lemma fl_pow_pos: "0 < x \<Longrightarrow> y \<noteq> 0 \<Longrightarrow> fl_pow (Fin x) (Fin y) = Fin (x powr y)"
  by (auto simp: fl_pow_def)

lemma foldl_fl_mul_Fin: "foldl fl_mul (Fin a) (map Fin ys) = Fin (a * prod_list ys)"
  by (induction ys arbitrary: a) (auto simp: mult.assoc)

lemma np_product_Fin: "np_product (map Fin ys) = Fin (prod_list ys)"
  by (simp add: np_product_def foldl_fl_mul_Fin)

lemma prod_list_pos: "(\<And>y. y \<in> set ys \<Longrightarrow> 0 < y) \<Longrightarrow> 0 < prod_list (ys :: real list)"
  by (induction ys) auto

lemma geometric_mean_ones:
  assumes pos: "\<And>x. x \<in> set xs \<Longrightarrow> 0 < x" and ne: "xs \<noteq> []" and d: "elems d = map Fin xs"
  shows "holder_mean d (Some (NdArray (replicate (length xs) (Fin 1)))) (PNum (Fin 0)) =
     Inr (Fin (prod_list (map (\<lambda>x. x powr (1 / real (length xs))) xs)))"
proof -
  let ?n = "length xs"
  have n0: "real ?n \<noteq> 0"
    using ne by simp
  have w: "fl_div (Fin 1) (np_sum (replicate ?n (Fin 1))) = Fin (1 / real ?n)"
    using n0 by (simp add: np_sum_replicate_one)
  have "map2 fl_pow (map Fin xs) (replicate ?n (Fin (1 / real ?n))) =
      map (\<lambda>x. fl_pow x (Fin (1 / real ?n))) (map Fin xs)"
    using map2_replicate[of fl_pow "map Fin xs" "Fin (1 / real ?n)"] by simp
  also have "\<dots> = map Fin (map (\<lambda>x. x powr (1 / real ?n)) xs)"
    using pos n0 by (induction xs) (auto simp: fl_pow_pos)
  finally have p: "map2 fl_pow (map Fin xs) (replicate ?n (Fin (1 / real ?n))) =
      map Fin (map (\<lambda>x. x powr (1 / real ?n)) xs)" .
  show ?thesis
    by (simp add: holder_mean_def fl_eq_def d np_broadcast_def w p np_product_Fin Let_def
        del: map_map)
qed


lemma weights_beta_ones:
  assumes "2 \<le> n"
  shows "weights_beta (replicate n (Fin 1)) = Fin (real n / ((real n)\<^sup>2 - real n))"
proof -
  have r: "replicate n (Fin 1) = map Fin (replicate n 1)"
    by simp
  have s: "sum_list (replicate n (1::real)) = real n"
    "sum_list (map (\<lambda>w. w\<^sup>2) (replicate n (1::real))) = real n"
    by (simp_all add: sum_list_replicate)
  have "real n * real n \<noteq> real n"
    using assms by simp
  then have "(sum_list (replicate n (1::real)))\<^sup>2 \<noteq>
      sum_list (map (\<lambda>w. w\<^sup>2) (replicate n (1::real)))"
    unfolding s by (simp add: power2_eq_square)
  from weights_beta_Fin[OF this] show ?thesis
    unfolding r s .
qed

lemma fl_log_pos: "0 < r \<Longrightarrow> fl_log (Fin r) = Fin (ln r)"
  by simp

lemma fl_div_Fin: "g \<noteq> 0 \<Longrightarrow> fl_div (Fin x) (Fin g) = Fin (x / g)"
  by simp

lemma map_log_ratio_Fin:
  assumes "\<And>x. x \<in> set xs \<Longrightarrow> 0 < x" "0 < g"
  shows "map (\<lambda>x. fl_log (fl_div x (Fin g))) (map Fin xs) = map Fin (map (\<lambda>x. ln (x / g)) xs)"
proof -
  have "fl_log (fl_div (Fin x) (Fin g)) = Fin (ln (x / g))" if "x \<in> set xs" for x
  proof -
    have x: "0 < x"
      by (rule assms(1)[OF that])
    then have "0 < x / g"
      using assms(2) by simp
    moreover have "g \<noteq> 0"
      using assms(2) by simp
    ultimately show ?thesis
      by (metis fl_div_Fin fl_log_pos)
  qed
  then show ?thesis
    by (simp del: fl_div.simps fl_log.simps)
qed

lemma np_dot_ones:
  "np_dot (replicate (length ys) (Fin 1)) (map Fin ys) = Inr (Fin (sum_list ys))"
proof -
  have "map2 fl_mul (replicate (length ys) (Fin 1)) (map Fin ys) = map Fin ys"
    using map2_replicate[of fl_mul "map Fin ys" "Fin 1"]
    by (simp add: map2_fl_mul_commute[of "replicate (length ys) (Fin 1)"])
  then show ?thesis
    by (simp add: np_dot_def np_sum_Fin)
qed

lemma geom_std_dev_finite:
  assumes pos: "\<And>x. x \<in> set xs \<Longrightarrow> 0 < x" and n: "2 \<le> length xs"
    and d: "elems d = map Fin xs"
  shows "geom_std_dev d None =
     Inr (Fin (sqrt (exp (real (length xs) / ((real (length xs))\<^sup>2 - real (length xs))
        * sum_list (map (\<lambda>x. (ln (x / prod_list (map (\<lambda>x. x powr (1 / real (length xs))) xs)))\<^sup>2)
                     xs)))))"
proof -
  let ?n = "length xs"
  let ?g = "prod_list (map (\<lambda>x. x powr (1 / real ?n)) xs)"
  have ne: "xs \<noteq> []"
    using n by auto
  have g: "0 < ?g"
  proof (rule prod_list_pos)
    fix y assume "y \<in> set (map (\<lambda>x. x powr (1 / real ?n)) xs)"
    then obtain x where "x \<in> set xs" "y = x powr (1 / real ?n)"
      by auto
    with pos[of x] show "0 < y"
      by simp
  qed
  have ones: "map (\<lambda>_. Fin 1) (map Fin xs) = replicate ?n (Fin 1)"
    by (simp add: map_replicate_const)
  have m: "holder_mean d (Some (NdArray (replicate ?n (Fin 1)))) (PNum (Fin 0)) = Inr (Fin ?g)"
    using pos ne d by (rule geometric_mean_ones)
  have "map (\<lambda>x. fl_pow x (Fin 2)) (map (\<lambda>x. fl_log (fl_div x (Fin ?g))) (map Fin xs)) =
      map (\<lambda>x. fl_pow x (Fin 2)) (map Fin (map (\<lambda>x. ln (x / ?g)) xs))"
    by (simp only: map_log_ratio_Fin[OF pos g])
  also have "\<dots> = map Fin (map (\<lambda>w. w\<^sup>2) (map (\<lambda>x. ln (x / ?g)) xs))"
    by (rule map_sq_Fin)
  also have "\<dots> = map Fin (map (\<lambda>x. (ln (x / ?g))\<^sup>2) xs)"
    by (simp only: map_map o_def)
  finally have dev:
    "map (\<lambda>x. fl_pow x (Fin 2)) (map (\<lambda>x. fl_log (fl_div x (Fin ?g))) (map Fin xs)) =
      map Fin (map (\<lambda>x. (ln (x / ?g))\<^sup>2) xs)" .
  have dot: "np_dot (replicate ?n (Fin 1)) (map Fin (map (\<lambda>x. (ln (x / ?g))\<^sup>2) xs)) =
      Inr (Fin (sum_list (map (\<lambda>x. (ln (x / ?g))\<^sup>2) xs)))"
    using np_dot_ones[of "map (\<lambda>x. (ln (x / ?g))\<^sup>2) xs"] by simp
  have "geom_std_dev d None =
      Inr (fl_sqrt (fl_exp (fl_mul (Fin (real ?n / ((real ?n)\<^sup>2 - real ?n)))
        (Fin (sum_list (map (\<lambda>x. (ln (x / ?g))\<^sup>2) xs))))))"
    unfolding geom_std_dev_def
    by (simp only: option.case ones m sum.case Let_def elems.simps d dev dot
        weights_beta_ones[OF n])
  also have "fl_sqrt (fl_exp (fl_mul (Fin (real ?n / ((real ?n)\<^sup>2 - real ?n)))
        (Fin (sum_list (map (\<lambda>x. (ln (x / ?g))\<^sup>2) xs))))) =
      Fin (sqrt (exp (real ?n / ((real ?n)\<^sup>2 - real ?n)
        * sum_list (map (\<lambda>x. (ln (x / ?g))\<^sup>2) xs))))"
    by (simp only: fl_mul.simps fl_exp.simps fl_sqrt.simps not_exp_less_zero if_False)
  finally show ?thesis .
qed

text \<open>
  Claim C3, amended. The functions \<open>minimum\<close>, \<open>maximum\<close>, \<open>range\<close>, \<open>mean\<close>,
  \<open>inverse_mean\<close>, \<open>avg_dev\<close>, \<open>std_dev\<close>, \<open>geom_std_dev\<close>, \<open>mode\<close> and
  \<open>holder_mean\<close> take the weights as their second parameter and accept \<open>None\<close>, and
  \<open>calc_stat(values, name)\<close> calls them with \<open>(values, None)\<close>. With \<open>None\<close> each is
  its unweighted formula; for a non-empty sample of finite numbers: the least and the
  greatest value and their difference, the sum divided by \<open>n\<close> (for \<open>mean\<close> and for
  \<open>holder_mean\<close>, whose power is then 1), the mean of the reciprocals when no value is
  zero, the mean absolute deviation from the mean, the population standard deviation, a
  most frequent value and the smallest of them, and for two or more positive values the
  geometric standard deviation with weights of one. So for a non-empty sample (for
  \<open>inverse_mean\<close>: a sample without a zero) \<open>calc_stat\<close> returns a number. With the
  name \<open>sorted\<close> \<open>calc_stat\<close> raises TypeError for every sample and all weights, and
  with \<open>n_numerical_modes\<close> and no weights it raises for every sample.
\<close>

theorem calc_stat_default_weights:
  "calc_stat d ''minimum'' None = map_sum id Num (minimum d None)
   \<and> calc_stat d ''maximum'' None = map_sum id Num (maximum d None)
   \<and> calc_stat d ''range'' None = map_sum id Num (range_stat d None)
   \<and> calc_stat d ''mean'' None = map_sum id Num (mean d None)
   \<and> calc_stat d ''inverse_mean'' None = map_sum id Num (inverse_mean d None)
   \<and> calc_stat d ''avg_dev'' None = map_sum id Num (avg_dev d None)
   \<and> calc_stat d ''std_dev'' None = map_sum id Num (std_dev d None)
   \<and> calc_stat d ''geom_std_dev'' None = map_sum id Num (geom_std_dev d None)
   \<and> calc_stat d ''mode'' None = map_sum id Num (mode d None)
   \<and> calc_stat d ''holder_mean'' None = map_sum id Num (holder_mean d None (PNum (Fin 1)))
   \<and> (xs \<noteq> [] \<and> elems d = map Fin xs \<longrightarrow>
        minimum d None = Inr (Fin (Min (set xs)))
        \<and> maximum d None = Inr (Fin (Max (set xs)))
        \<and> range_stat d None = Inr (Fin (Max (set xs) - Min (set xs)))
        \<and> mean d None = Inr (Fin (sum_list xs / real (length xs)))
        \<and> holder_mean d None (PNum (Fin 1)) = Inr (Fin (sum_list xs / real (length xs)))
        \<and> avg_dev d None =
            Inr (Fin (sum_list (map (\<lambda>x. \<bar>x - sum_list xs / real (length xs)\<bar>) xs)
                      / real (length xs)))
        \<and> std_dev d None =
            Inr (Fin (sqrt (sum_list (map (\<lambda>x. (x - sum_list xs / real (length xs))\<^sup>2) xs)
                              / real (length xs))))
        \<and> (\<exists>m. mode d None = Inr m \<and> m \<in> set (elems d)
              \<and> (\<forall>y \<in> set (elems d). count_list (elems d) y \<le> count_list (elems d) m)
              \<and> (\<forall>y \<in> set (elems d).
                    count_list (elems d) y = count_list (elems d) m \<longrightarrow> fl_le m y)))
   \<and> (xs \<noteq> [] \<and> elems d = map Fin xs \<and> 0 \<notin> set xs \<longrightarrow>
        inverse_mean d None =
          Inr (Fin (sum_list (map (\<lambda>x. 1 / x) xs) / real (length xs))))
   \<and> ((\<forall>x \<in> set xs. 0 < x) \<and> 2 \<le> length xs \<and> elems d = map Fin xs \<longrightarrow>
        geom_std_dev d None =
          Inr (Fin (sqrt (exp (real (length xs) / ((real (length xs))\<^sup>2 - real (length xs))
             * sum_list (map (\<lambda>x. (ln (x / prod_list (map (\<lambda>x. x powr (1 / real (length xs)))
                                                        xs)))\<^sup>2) xs))))))
   \<and> (elems d \<noteq> [] \<longrightarrow>
        (\<exists>v. calc_stat d ''minimum'' None = Inr (Num v))
        \<and> (\<exists>v. calc_stat d ''maximum'' None = Inr (Num v))
        \<and> (\<exists>v. calc_stat d ''range'' None = Inr (Num v))
        \<and> (\<exists>v. calc_stat d ''mean'' None = Inr (Num v))
        \<and> (\<exists>v. calc_stat d ''avg_dev'' None = Inr (Num v))
        \<and> (\<exists>v. calc_stat d ''std_dev'' None = Inr (Num v))
        \<and> (\<exists>v. calc_stat d ''geom_std_dev'' None = Inr (Num v))
        \<and> (\<exists>v. calc_stat d ''mode'' None = Inr (Num v))
        \<and> (\<exists>v. calc_stat d ''holder_mean'' None = Inr (Num v)))
   \<and> (\<not> list_ex is_zero (elems d) \<longrightarrow>
        (\<exists>v. calc_stat d ''inverse_mean'' None = Inr (Num v)))
   \<and> calc_stat d ''sorted'' w = Inl TypeError
   \<and> (\<exists>e. calc_stat d ''n_numerical_modes'' None = Inl e)"
proof -
  have s: "\<exists>v. calc_stat d name None = Inr (Num v)"
    if "calc_stat d name None = map_sum id Num r" "\<exists>v. r = Inr v" for name r
    using that by auto
  note c = calc_stat_weight_functions[of d None]
  have f: "xs \<noteq> [] \<and> elems d = map Fin xs \<longrightarrow>
        minimum d None = Inr (Fin (Min (set xs)))
        \<and> maximum d None = Inr (Fin (Max (set xs)))
        \<and> range_stat d None = Inr (Fin (Max (set xs) - Min (set xs)))
        \<and> mean d None = Inr (Fin (sum_list xs / real (length xs)))
        \<and> holder_mean d None (PNum (Fin 1)) = Inr (Fin (sum_list xs / real (length xs)))
        \<and> avg_dev d None =
            Inr (Fin (sum_list (map (\<lambda>x. \<bar>x - sum_list xs / real (length xs)\<bar>) xs)
                      / real (length xs)))
        \<and> std_dev d None =
            Inr (Fin (sqrt (sum_list (map (\<lambda>x. (x - sum_list xs / real (length xs))\<^sup>2) xs)
                              / real (length xs))))
        \<and> (\<exists>m. mode d None = Inr m \<and> m \<in> set (elems d)
              \<and> (\<forall>y \<in> set (elems d). count_list (elems d) y \<le> count_list (elems d) m)
              \<and> (\<forall>y \<in> set (elems d).
                    count_list (elems d) y = count_list (elems d) m \<longrightarrow> fl_le m y))"
    using minimum_finite[of xs d] maximum_finite[of xs d] range_finite[of xs d]
      mean_finite[of xs d] holder_mean_finite[of xs d] avg_dev_finite[of xs d]
      std_dev_finite[of xs d] mode_finite[of xs d]
    by (intro impI conjI; elim conjE) blast+
  have i: "xs \<noteq> [] \<and> elems d = map Fin xs \<and> 0 \<notin> set xs \<longrightarrow>
        inverse_mean d None =
          Inr (Fin (sum_list (map (\<lambda>x. 1 / x) xs) / real (length xs)))"
    using inverse_mean_finite[of xs d] by blast
  have g: "(\<forall>x \<in> set xs. 0 < x) \<and> 2 \<le> length xs \<and> elems d = map Fin xs \<longrightarrow>
        geom_std_dev d None =
          Inr (Fin (sqrt (exp (real (length xs) / ((real (length xs))\<^sup>2 - real (length xs))
             * sum_list (map (\<lambda>x. (ln (x / prod_list (map (\<lambda>x. x powr (1 / real (length xs)))
                                                        xs)))\<^sup>2) xs)))))"
    using geom_std_dev_finite[of xs d] by blast
  have r: "elems d \<noteq> [] \<longrightarrow>
        (\<exists>v. calc_stat d ''minimum'' None = Inr (Num v))
        \<and> (\<exists>v. calc_stat d ''maximum'' None = Inr (Num v))
        \<and> (\<exists>v. calc_stat d ''range'' None = Inr (Num v))
        \<and> (\<exists>v. calc_stat d ''mean'' None = Inr (Num v))
        \<and> (\<exists>v. calc_stat d ''avg_dev'' None = Inr (Num v))
        \<and> (\<exists>v. calc_stat d ''std_dev'' None = Inr (Num v))
        \<and> (\<exists>v. calc_stat d ''geom_std_dev'' None = Inr (Num v))
        \<and> (\<exists>v. calc_stat d ''mode'' None = Inr (Num v))
        \<and> (\<exists>v. calc_stat d ''holder_mean'' None = Inr (Num v))"
    using unweighted_returns[of d] c(1-4,6-10) by (intro impI conjI s) blast+
  have z: "\<not> list_ex is_zero (elems d) \<longrightarrow>
        (\<exists>v. calc_stat d ''inverse_mean'' None = Inr (Num v))"
    using inverse_mean_returns[of d] c(5) by (intro impI s) blast+
  from c f i g r z calc_stat_sorted[of d w] calc_stat_n_numerical_modes[of d]
  show ?thesis
    by (intro conjI)
qed

theorem calc_stat_default_weights_witness:
  "minimum (PyList [Fin 1, Fin 2, Fin 4]) None = Inr (Fin 1)
   \<and> maximum (PyList [Fin 1, Fin 2, Fin 4]) None = Inr (Fin 4)
   \<and> range_stat (PyList [Fin 1, Fin 2, Fin 4]) None = Inr (Fin 3)
   \<and> mean (PyList [Fin 1, Fin 2, Fin 4]) None = Inr (Fin (7 / 3))
   \<and> holder_mean (PyList [Fin 1, Fin 2, Fin 4]) None (PNum (Fin 1)) = Inr (Fin (7 / 3))
   \<and> avg_dev (PyList [Fin 1, Fin 2, Fin 4]) None = Inr (Fin (10 / 9))
   \<and> std_dev (PyList [Fin 1, Fin 2, Fin 4]) None = Inr (Fin (sqrt (14 / 9)))
   \<and> inverse_mean (PyList [Fin 1, Fin 2, Fin 4]) None = Inr (Fin (7 / 12))
   \<and> (\<exists>v. calc_stat (PyList [Fin 1, Fin 2, Fin 4]) ''geom_std_dev'' None = Inr (Num v))
   \<and> (\<exists>v. calc_stat (PyList [Fin 1, Fin 2, Fin 4]) ''mode'' None = Inr (Num v))
   \<and> calc_stat (PyList [Fin 1, Fin 2, Fin 4]) ''sorted'' (Some (PyList [Fin 1, Fin 1, Fin 1])) =
       Inl TypeError"
proof -
  note t = calc_stat_default_weights
    [of "PyList [Fin 1, Fin 2, Fin 4]" "[1, 2, 4]" "Some (PyList [Fin 1, Fin 1, Fin 1])"]
  have e: "elems (PyList [Fin 1, Fin 2, Fin 4]) = [Fin 1, Fin 2, Fin 4]"
    by simp
  have h1: "[1, 2, 4 :: real] \<noteq> [] \<and> [Fin 1, Fin 2, Fin 4] = map Fin [1, 2, 4]"
    by simp
  have h2: "[1, 2, 4 :: real] \<noteq> [] \<and> [Fin 1, Fin 2, Fin 4] = map Fin [1, 2, 4]
      \<and> 0 \<notin> set [1, 2, 4 :: real]"
    by simp
  have h3: "(\<forall>x \<in> set [1, 2, 4 :: real]. 0 < x) \<and> 2 \<le> length [1, 2, 4 :: real]
      \<and> [Fin 1, Fin 2, Fin 4] = map Fin [1, 2, 4]"
    by simp
  have h4: "[Fin 1, Fin 2, Fin 4] \<noteq> []"
    by simp
  have h5: "\<not> list_ex is_zero [Fin 1, Fin 2, Fin 4]"
    by simp
  from t[unfolded e] h1 h2 h3 h4 h5 have raw:
    "(minimum (PyList [Fin 1, Fin 2, Fin 4]) None = Inr (Fin (Min (set [1, 2, 4 :: real])))
            \<and> maximum (PyList [Fin 1, Fin 2, Fin 4]) None = Inr (Fin (Max (set [1, 2, 4 :: real])))
            \<and> range_stat (PyList [Fin 1, Fin 2, Fin 4]) None = Inr (Fin (Max (set [1, 2, 4 :: real]) - Min (set [1, 2, 4 :: real])))
            \<and> mean (PyList [Fin 1, Fin 2, Fin 4]) None = Inr (Fin (sum_list [1, 2, 4 :: real] / real (length [1, 2, 4 :: real])))
            \<and> holder_mean (PyList [Fin 1, Fin 2, Fin 4]) None (PNum (Fin 1)) = Inr (Fin (sum_list [1, 2, 4 :: real] / real (length [1, 2, 4 :: real])))
            \<and> avg_dev (PyList [Fin 1, Fin 2, Fin 4]) None =
                Inr (Fin (sum_list (map (\<lambda>x. \<bar>x - sum_list [1, 2, 4 :: real] / real (length [1, 2, 4 :: real])\<bar>) [1, 2, 4 :: real])
                          / real (length [1, 2, 4 :: real])))
            \<and> std_dev (PyList [Fin 1, Fin 2, Fin 4]) None =
                Inr (Fin (sqrt (sum_list (map (\<lambda>x. (x - sum_list [1, 2, 4 :: real] / real (length [1, 2, 4 :: real]))\<^sup>2) [1, 2, 4 :: real])
                                  / real (length [1, 2, 4 :: real]))))
            \<and> (\<exists>m. mode (PyList [Fin 1, Fin 2, Fin 4]) None = Inr m \<and> m \<in> set [Fin 1, Fin 2, Fin 4]
                  \<and> (\<forall>y \<in> set [Fin 1, Fin 2, Fin 4]. count_list [Fin 1, Fin 2, Fin 4] y \<le> count_list [Fin 1, Fin 2, Fin 4] m)
                  \<and> (\<forall>y \<in> set [Fin 1, Fin 2, Fin 4].
                        count_list [Fin 1, Fin 2, Fin 4] y = count_list [Fin 1, Fin 2, Fin 4] m \<longrightarrow> fl_le m y)))
       \<and> inverse_mean (PyList [Fin 1, Fin 2, Fin 4]) None =
              Inr (Fin (sum_list (map (\<lambda>x. 1 / x) [1, 2, 4 :: real]) / real (length [1, 2, 4 :: real])))
       \<and> geom_std_dev (PyList [Fin 1, Fin 2, Fin 4]) None =
              Inr (Fin (sqrt (exp (real (length [1, 2, 4 :: real]) / ((real (length [1, 2, 4 :: real]))\<^sup>2 - real (length [1, 2, 4 :: real]))
                 * sum_list (map (\<lambda>x. (ln (x / prod_list (map (\<lambda>x. x powr (1 / real (length [1, 2, 4 :: real])))
                                                            [1, 2, 4 :: real])))\<^sup>2) [1, 2, 4 :: real])))))
       \<and> (\<exists>v. calc_stat (PyList [Fin 1, Fin 2, Fin 4]) ''geom_std_dev'' None = Inr (Num v))
       \<and> (\<exists>v. calc_stat (PyList [Fin 1, Fin 2, Fin 4]) ''inverse_mean'' None = Inr (Num v))
       \<and> calc_stat (PyList [Fin 1, Fin 2, Fin 4]) ''sorted'' (Some (PyList [Fin 1, Fin 1, Fin 1])) =
           Inl TypeError"
    by blast
  from raw have a: "minimum (PyList [Fin 1, Fin 2, Fin 4]) None = Inr (Fin 1)"
    "maximum (PyList [Fin 1, Fin 2, Fin 4]) None = Inr (Fin 4)"
    "range_stat (PyList [Fin 1, Fin 2, Fin 4]) None = Inr (Fin 3)"
    by simp_all
  from raw have b: "mean (PyList [Fin 1, Fin 2, Fin 4]) None = Inr (Fin (7 / 3))"
    "holder_mean (PyList [Fin 1, Fin 2, Fin 4]) None (PNum (Fin 1)) = Inr (Fin (7 / 3))"
    "inverse_mean (PyList [Fin 1, Fin 2, Fin 4]) None = Inr (Fin (7 / 12))"
    by simp_all
  from raw have c: "avg_dev (PyList [Fin 1, Fin 2, Fin 4]) None = Inr (Fin (10 / 9))"
    "std_dev (PyList [Fin 1, Fin 2, Fin 4]) None = Inr (Fin (sqrt (14 / 9)))"
    by (simp_all add: power2_eq_square)
  from t[unfolded e] h4 have d:
    "\<exists>v. calc_stat (PyList [Fin 1, Fin 2, Fin 4]) ''geom_std_dev'' None = Inr (Num v)"
    "\<exists>v. calc_stat (PyList [Fin 1, Fin 2, Fin 4]) ''mode'' None = Inr (Num v)"
    by blast+
  from t have f: "calc_stat (PyList [Fin 1, Fin 2, Fin 4]) ''sorted''
      (Some (PyList [Fin 1, Fin 1, Fin 1])) = Inl TypeError"
    by blast
  from a b c d f show ?thesis
    by (intro conjI)
qed

subsection \<open>The bins of n_numerical_modes\<close>

lemma py_set_len_identical:
  assumes "xs \<noteq> []" "\<forall>x \<in> set xs. x = v" "v \<noteq> NaN"
  shows "py_set_len xs = 1"
proof -
  have f: "filter (\<lambda>x. \<not> is_nan x) xs = xs"
    using assms(2,3) by (auto simp: filter_id_conv is_nan_iff)
  have g: "filter is_nan xs = []"
    using assms(2,3) by (auto simp: filter_empty_conv is_nan_iff)
  have "set xs = {v}"
    using assms(1,2) by (cases xs) auto
  then have "length (remdups xs) = 1"
    by (simp add: length_remdups_card_conv)
  then show ?thesis
    by (simp add: py_set_len_def f g)
qed

lemma n_numerical_modes_identical:
  assumes "elems d \<noteq> []" "\<forall>x \<in> set (elems d). x = v" "v \<noteq> NaN" "1 \<le> n"
  shows "n_numerical_modes argsort d (PyInt n) dl = Inr (v # replicate (nat n - 1) NaN)"
proof -
  have "hd (elems d) = v"
    using assms(1,2) by (cases "elems d") auto
  moreover have "nat (n - 1) = nat n - 1"
    using assms(4) by simp
  ultimately show ?thesis
    using py_set_len_identical[OF assms(1-3)] by (simp add: n_numerical_modes_def)
qed

lemma py_slice_from_neg:
  "1 \<le> n \<Longrightarrow> py_slice_from (- n) xs = drop (length xs - nat n) xs"
  by (auto simp: py_slice_from_def Let_def max_def intro!: arg_cong2[where f=drop])

lemma np_argsort_is_argsort: "is_argsort h (np_argsort h)"
  by (simp add: is_argsort_def np_argsort_def)

lemma top_of_sorted:
  assumes "sorted (map f xs)" "distinct xs"
  shows "sorted (map f (drop m xs))" "distinct (drop m xs)"
    "\<forall>j \<in> set xs. j \<notin> set (drop m xs) \<longrightarrow> (\<forall>i \<in> set (drop m xs). f j \<le> f i)"
proof -
  have s: "sorted (map f (take m xs) @ map f (drop m xs))"
    using assms(1) by (simp only: map_append[symmetric] append_take_drop_id)
  then show "sorted (map f (drop m xs))"
    by (simp add: sorted_append)
  show "distinct (drop m xs)"
    using assms(2) by simp
  show "\<forall>j \<in> set xs. j \<notin> set (drop m xs) \<longrightarrow> (\<forall>i \<in> set (drop m xs). f j \<le> f i)"
  proof (intro ballI impI)
    fix j i
    assume "j \<in> set xs" "j \<notin> set (drop m xs)" "i \<in> set (drop m xs)"
    then have "j \<in> set (take m xs)"
      using append_take_drop_id[of m xs] by (metis Un_iff set_append)
    with s \<open>i \<in> set (drop m xs)\<close> show "f j \<le> f i"
      by (auto simp: sorted_append)
  qed
qed

lemma n_numerical_modes_bins:
  assumes nd: "py_set_len (elems d) \<noteq> 1"
    and lo: "py_min (elems d) = Inr lo" and hi: "py_max (elems d) = Inr hi"
    and bins: "np_arange lo hi dl = Inr bins" and n: "1 \<le> n"
    and srt: "is_argsort (np_histogram (elems d) bins) (argsort (np_histogram (elems d) bins))"
  shows "\<exists>idx. n_numerical_modes argsort d (PyInt n) dl =
             Inr (map (\<lambda>i. Fin (bins ! i)) idx @ replicate (nat n - length idx) NaN)
     \<and> length idx = min (nat n) (length bins - 1)
     \<and> distinct idx
     \<and> (\<forall>i \<in> set idx. i < length bins - 1)
     \<and> sorted (rev (map (\<lambda>i. np_histogram (elems d) bins ! i) idx))
     \<and> (\<forall>j < length bins - 1. j \<notin> set idx \<longrightarrow>
           (\<forall>i \<in> set idx. np_histogram (elems d) bins ! j \<le> np_histogram (elems d) bins ! i))"
proof -
  define hist where "hist = np_histogram (elems d) bins"
  define sl where "sl = drop (length (argsort hist) - nat n) (argsort hist)"
  have lh: "length hist = length bins - 1"
    by (simp add: hist_def np_histogram_def)
  have a: "length (argsort hist) = length hist" "distinct (argsort hist)"
    "set (argsort hist) = {0 ..< length hist}" "sorted (map (\<lambda>i. hist ! i) (argsort hist))"
    using srt unfolding hist_def is_argsort_def by blast+
  note t = top_of_sorted[OF a(4) a(2), of "length (argsort hist) - nat n"]
  have res: "n_numerical_modes argsort d (PyInt n) dl =
      Inr (map (\<lambda>i. Fin (bins ! i)) (rev sl) @ replicate (nat n - length (rev sl)) NaN)"
  proof -
    have e: "py_slice_from (- n) (argsort (np_histogram (elems d) bins)) = sl"
      by (simp only: sl_def hist_def py_slice_from_neg[OF n])
    have "nat (n - int (length sl)) = nat n - length sl"
      using n by simp
    then show ?thesis
      using nd by (simp add: n_numerical_modes_def lo hi bins Let_def e rev_map)
  qed
  have len: "length (rev sl) = min (nat n) (length bins - 1)"
  proof -
    have "length sl = length hist - (length hist - nat n)"
      using a(1) by (simp add: sl_def)
    then show ?thesis
      using lh by (simp add: min_def) linarith
  qed
  have dist: "distinct (rev sl)"
    using t(2) by (simp add: sl_def)
  have bound: "\<forall>i \<in> set (rev sl). i < length bins - 1"
  proof
    fix i assume "i \<in> set (rev sl)"
    then have "i \<in> set (argsort hist)"
      unfolding sl_def by (auto dest: in_set_dropD)
    then show "i < length bins - 1"
      using a(3) lh by simp
  qed
  have srt': "sorted (rev (map (\<lambda>i. hist ! i) (rev sl)))"
    using t(1) by (simp add: sl_def rev_map)
  have rest: "\<forall>j < length bins - 1. j \<notin> set (rev sl) \<longrightarrow>
      (\<forall>i \<in> set (rev sl). hist ! j \<le> hist ! i)"
  proof (intro allI impI)
    fix j assume "j < length bins - 1" "j \<notin> set (rev sl)"
    then have "j \<in> set (argsort hist)" "j \<notin> set (drop (length (argsort hist) - nat n) (argsort hist))"
      using a(3) lh by (simp_all add: sl_def)
    with t(3) show "\<forall>i \<in> set (rev sl). hist ! j \<le> hist ! i"
      by (simp add: sl_def)
  qed
  from res len dist bound srt' rest show ?thesis
    unfolding hist_def by blast
qed

lemma is_argsort_3000_facts: "is_argsort [3, 0, 0, 0] idx \<Longrightarrow> length idx = Suc (Suc (Suc (Suc 0))) \<and> distinct idx
    \<and> set idx = {0 ..< Suc (Suc (Suc (Suc 0)))} \<and> sorted (map (\<lambda>i. [3, 0, 0, 0 :: nat] ! i) idx)"
  by (simp_all add: is_argsort_def)

lemma length_4_list: "length idx = Suc (Suc (Suc (Suc 0))) \<Longrightarrow> \<exists>p q r s. idx = [p, q, r, s]"
  by (auto simp: length_Suc_conv)

lemma nth_3000: "i < 4 \<Longrightarrow> [3, 0, 0, 0 :: nat] ! i = (if i = 0 then 3 else 0)"
proof -
  assume "i < 4"
  then have "i = 0 \<or> i = 1 \<or> i = 2 \<or> i = 3" by arith
  then show ?thesis by auto
qed

lemma perm_of_4_bounds: "set [p, q, r, s] = {0 ..< Suc (Suc (Suc (Suc 0)))} \<Longrightarrow>
   p < 4 \<and> q < 4 \<and> r < 4 \<and> s < (4::nat) \<and> (p = 0 \<or> q = 0 \<or> r = 0 \<or> s = 0)"
proof -
  assume a: "set [p, q, r, s] = {0 ..< Suc (Suc (Suc (Suc 0)))}"
  have m: "x < 4" if "x \<in> set [p, q, r, s]" for x
    using that unfolding a by simp
  have "0 \<in> set [p, q, r, s]"
    unfolding a by simp
  then have "p = 0 \<or> q = 0 \<or> r = 0 \<or> s = 0"
    by auto
  moreover have "p < 4" "q < 4" "r < 4" "s < 4"
    by (rule m; simp)+
  ultimately show ?thesis by blast
qed

lemma sorted_3000_steps:
  assumes "sorted (map (\<lambda>i. [3, 0, 0, 0 :: nat] ! i) [p, q, r, s])" "p < 4" "q < 4" "r < 4" "s < 4"
  shows "(p = 0 \<longrightarrow> q = 0) \<and> (q = 0 \<longrightarrow> r = 0) \<and> (r = 0 \<longrightarrow> s = 0)"
proof -
  from assms(1) have "[3, 0, 0, 0 :: nat] ! p \<le> [3, 0, 0, 0] ! q"
    "[3, 0, 0, 0 :: nat] ! q \<le> [3, 0, 0, 0] ! r" "[3, 0, 0, 0 :: nat] ! r \<le> [3, 0, 0, 0] ! s"
    by simp_all
  then have "(if p = 0 then 3 else 0 :: nat) \<le> (if q = 0 then 3 else 0)"
    "(if q = 0 then 3 else 0 :: nat) \<le> (if r = 0 then 3 else 0)"
    "(if r = 0 then 3 else 0 :: nat) \<le> (if s = 0 then 3 else 0)"
    by (simp_all only: nth_3000[OF assms(2)] nth_3000[OF assms(3)] nth_3000[OF assms(4)] nth_3000[OF assms(5)])
  then show ?thesis
    by (auto split: if_splits)
qed

lemma nonzero_below_4: "r \<noteq> 0 \<Longrightarrow> r < 4 \<Longrightarrow> r \<in> {1, 2, 3 :: nat}"
  by (simp, arith)


lemma argsort_3000:
  assumes "is_argsort [3, 0, 0, 0] idx"
  shows "\<exists>a b c. idx = [c, b, a, 0] \<and> a \<in> {1, 2, 3} \<and> b \<in> {1, 2, 3} \<and> a \<noteq> b"
proof -
  note f = is_argsort_3000_facts[OF assms]
  from f length_4_list obtain p q r s where idx: "idx = [p, q, r, s]"
    by blast
  from f have st: "set [p, q, r, s] = {0 ..< Suc (Suc (Suc (Suc 0)))}"
    and so: "sorted (map (\<lambda>i. [3, 0, 0, 0 :: nat] ! i) [p, q, r, s])"
    and d: "distinct [p, q, r, s]"
    unfolding idx by blast+
  from perm_of_4_bounds[OF st] have b: "p < 4" "q < 4" "r < 4" "s < 4"
    and z: "p = 0 \<or> q = 0 \<or> r = 0 \<or> s = 0"
    by blast+
  from sorted_3000_steps[OF so b] z have s0: "s = 0"
    by blast
  from d s0 have n: "r \<noteq> 0" "q \<noteq> 0" "r \<noteq> q"
    by auto
  have "r \<in> {1, 2, 3}" "q \<in> {1, 2, 3}"
    using nonzero_below_4[OF n(1) b(3)] nonzero_below_4[OF n(2) b(2)] by blast+
  with n(3) s0 idx show ?thesis
    by blast
qed

lemma n_numerical_modes_at_0_0_0_5:
  assumes "is_argsort [3, 0, 0, 0] (argsort [3, 0, 0, 0])"
  shows "\<exists>a b. n_numerical_modes argsort (PyList [Fin 0, Fin 0, Fin 0, Fin 5]) (PyInt 3)
             (PyFloat (Fin 1)) = Inr [Fin 0, Fin (real a), Fin (real b)]
     \<and> a \<in> {1, 2, 3} \<and> b \<in> {1, 2, 3} \<and> a \<noteq> b"
proof -
  have hist: "np_histogram [Fin 0, Fin 0, Fin 0, Fin 5] [0, 1, 2, 3, 4] = [3, 0, 0, 0]"
    by (simp add: np_histogram_def in_bin_def fl_le_def fl_eq_def upt_conv_Cons)
  from argsort_3000[OF assms] obtain a b c where i: "argsort [3, 0, 0, 0] = [c, b, a, 0]"
    "a \<in> {1, 2, 3}" "b \<in> {1, 2, 3}" "a \<noteq> b"
    by blast
  have bins: "np_arange (Fin 0) (Fin 5) (PyFloat (Fin 1)) = Inr [0, 1, 2, 3, 4]"
    by (simp add: np_arange_def upt_conv_Cons)
  have nth: "[0, 1, 2, 3, 4 :: real] ! a = real a" "[0, 1, 2, 3, 4 :: real] ! b = real b"
    using i(2,3) by auto
  have "n_numerical_modes argsort (PyList [Fin 0, Fin 0, Fin 0, Fin 5]) (PyInt 3)
          (PyFloat (Fin 1)) = Inr [Fin 0, Fin (real a), Fin (real b)]"
    by (simp add: n_numerical_modes_def py_set_len_def bins hist i(1) py_slice_from_def nth
        Let_def)
  with i(2-4) show ?thesis
    by blast
qed


lemma n_numerical_modes_5_example:
  "n_numerical_modes argsort (PyList [Fin 5, Fin 5, Fin 5, Fin 5]) (PyInt 3)
     (PyFloat (Fin (1 / 10))) = Inr [Fin 5, NaN, NaN]"
  by (simp add: n_numerical_modes_def py_set_len_def numeral_eq_Suc)

lemma np_histogram_0_0_0_5:
  "np_histogram [Fin 0, Fin 0, Fin 0, Fin 5] [0, 1, 2, 3, 4] = [3, 0, 0, 0]"
  by (simp add: np_histogram_def in_bin_def fl_le_def fl_eq_def upt_conv_Cons)

text \<open>
  Claim C7. The claim, as the docstring (\<open>first n most frequent entries (or nan if not
  found)\<close>), has the result padded with NaN when fewer than \<open>n\<close> bins hold a value. The
  code pads by the number of bins it has selected, empty or not. For the sample
  \<open>[0, 0, 0, 5]\<close> with bin width 1 the edges are 0, 1, 2, 3, 4, the counts are 3, 0, 0, 0
  (the value 5 lies beyond the last edge), and for \<open>n = 3\<close> the result is 0 followed by the
  left edges of two of the three empty bins, and no NaN. This holds for every order in
  which the sorting leaves the equal counts.
\<close>

theorem n_numerical_modes_empty_bins_not_padded:
  "np_histogram [Fin 0, Fin 0, Fin 0, Fin 5] [0, 1, 2, 3, 4] = [3, 0, 0, 0]
   \<and> (is_argsort [3, 0, 0, 0] (argsort [3, 0, 0, 0]) \<longrightarrow>
        (\<exists>a b. n_numerical_modes argsort (PyList [Fin 0, Fin 0, Fin 0, Fin 5]) (PyInt 3)
                  (PyFloat (Fin 1)) = Inr [Fin 0, Fin (real a), Fin (real b)]
           \<and> a \<in> {1, 2, 3} \<and> b \<in> {1, 2, 3} \<and> a \<noteq> b))"
  using np_histogram_0_0_0_5 n_numerical_modes_at_0_0_0_5[of argsort] by blast

theorem n_numerical_modes_empty_bins_not_padded_witness:
  "is_argsort [3, 0, 0, 0] (np_argsort [3, 0, 0, 0])
   \<and> (\<exists>a b. n_numerical_modes np_argsort (PyList [Fin 0, Fin 0, Fin 0, Fin 5]) (PyInt 3)
                (PyFloat (Fin 1)) = Inr [Fin 0, Fin (real a), Fin (real b)]
          \<and> a \<in> {1, 2, 3} \<and> b \<in> {1, 2, 3} \<and> a \<noteq> b)"
proof -
  have h: "is_argsort [3, 0, 0, 0] (np_argsort [3, 0, 0, 0])"
    by (rule np_argsort_is_argsort)
  from n_numerical_modes_empty_bins_not_padded[of np_argsort] h show ?thesis
    by blast
qed

end
